theory Spec2Isabelle
  imports Complex_Main "HOL-Library.AList"
begin

section \<open>Values, dictionaries, errors\<close>

text \<open>
  Python values as they occur in entity records: the serialized form of an entity is a
  dict from names to values. Dicts keep their entries as association lists; \<open>d[k] = v\<close>
  is \<open>AList.update\<close>, \<open>del d[k]\<close> is \<open>AList.delete\<close>, \<open>d.update(e)\<close> is \<open>AList.merge\<close>.
  Values are compared structurally.
\<close>

datatype val =
    VNone
  | VBool bool
  | VInt int
  | VStr string
  | VTuple "val list"
  | VDict "(string \<times> val) list"

type_synonym pydict = "(string \<times> val) list"

datatype error = TypeError | KeyError | ValueError | AttributeError

datatype 'a outcome = Returned 'a | Raised error

section \<open>Schema: attributes, blobs, and the class lineage\<close>

text \<open>
  Modelled from the spec: the \<open>Attribute\<close> class of \<open>attributes.py\<close> is not part of the
  sources. An attribute is a named field with a default value, a validation rule and a
  read-only flag.
\<close>

record attr_def =
  a_default :: val
  a_read_only :: bool
  a_validate :: "val \<Rightarrow> val outcome"

text \<open>
  A field registered on an entity class: an attribute (\<open>register_attr\<close>) or a sub-blob
  (\<open>register_blob\<close>), the latter given by the values it starts with.
\<close>

datatype field = Attr attr_def | SubBlob pydict

text \<open>
  A class object: its name, the fields registered on its own base blob, and its
  \<open>__bases__\<close>. A class reachable along two paths occurs twice as the same value.
\<close>

datatype pyclass = PyClass (cls_name: string) (cls_fields: "(string \<times> field) list")
  (cls_bases: "pyclass list")

text \<open>\<open>EntityVersion\<close>: default 1, a non-integer is refused with a \<open>TypeError\<close>
  (a Python \<open>bool\<close> is an \<open>int\<close>).\<close>

definition EntityVersion :: attr_def where
  "EntityVersion = \<lparr> a_default = VInt 1, a_read_only = False,
     a_validate = (\<lambda>v. case v of VInt i \<Rightarrow> Returned v | VBool b \<Rightarrow> Returned v
                              | _ \<Rightarrow> Raised TypeError) \<rparr>"

definition py_object :: pyclass where
  "py_object = PyClass ''object'' [] []"

definition HasFlags :: pyclass where
  "HasFlags = PyClass ''HasFlags'' [] [py_object]"

definition HasTags :: pyclass where
  "HasTags = PyClass ''HasTags'' [] [py_object]"

definition HasWeaks :: pyclass where
  "HasWeaks = PyClass ''HasWeaks'' [] [py_object]"

definition Entity :: pyclass where
  "Entity = PyClass ''Entity'' [(''version'', Attr EntityVersion)] [HasFlags, HasTags, HasWeaks]"

text \<open>\<open>issubclass(c, e)\<close>: \<open>e\<close> is \<open>c\<close> or an ancestor of \<open>c\<close>.\<close>

fun issubclass :: "pyclass \<Rightarrow> pyclass \<Rightarrow> bool" where
  "issubclass (PyClass n fs bs) e = (PyClass n fs bs = e \<or> list_ex (\<lambda>b. issubclass b e) bs)"

text \<open>The lineage of a class: the class and all its ancestors.\<close>

fun lineage :: "pyclass \<Rightarrow> pyclass set" where
  "lineage (PyClass n fs bs) = insert (PyClass n fs bs) (\<Union>b \<in> set bs. lineage b)"

text \<open>
  Modelled from the spec: \<open>DataBlob\<close> of \<open>attributes.py\<close> is not part of the sources. A
  blob instance holds the fields of its schema and the current value of each; a fresh
  instance of a class's base blob holds the class's own fields at their defaults, and
  \<open>_update\<close> merges another blob's fields and values into it.
\<close>

record blob =
  b_fields :: "(string \<times> field) list"
  b_values :: pydict

fun field_default :: "field \<Rightarrow> val" where
  "field_default (Attr a) = a_default a"
| "field_default (SubBlob d) = VDict d"

definition new_base_blob :: "pyclass \<Rightarrow> blob" where
  "new_base_blob c = \<lparr> b_fields = cls_fields c,
     b_values = map (\<lambda>(k, f). (k, field_default f)) (cls_fields c) \<rparr>"

definition blob_update :: "blob \<Rightarrow> blob \<Rightarrow> blob" where
  "blob_update b other = \<lparr> b_fields = AList.merge (b_fields b) (b_fields other),
     b_values = AList.merge (b_values b) (b_values other) \<rparr>"

text \<open>
  \<open>_build_base_blob\<close> of \<open>Entity.__init__\<close>. The accumulators \<open>blob\<close> and \<open>checked\<close> are
  the function's default arguments, created once per construction and shared by all the
  recursive calls; here they are the state that is passed along. \<open>checked\<close> is kept as
  the list of the classes merged so far, in the order they were merged.
\<close>

fun build_base_blob_rec :: "pyclass \<Rightarrow> blob \<times> pyclass list \<Rightarrow> blob \<times> pyclass list"
and build_bases :: "pyclass list \<Rightarrow> blob \<times> pyclass list \<Rightarrow> blob \<times> pyclass list" where
  "build_base_blob_rec (PyClass n fs bs) st =
     (case build_bases bs st of (blob, checked) \<Rightarrow>
        if issubclass (PyClass n fs bs) Entity then
          (if PyClass n fs bs \<notin> set checked
           then (blob_update blob (new_base_blob (PyClass n fs bs)), checked @ [PyClass n fs bs])
           else (blob, checked))
        else (blob, checked))"
| "build_bases [] st = st"
| "build_bases (b # bs) st = build_bases bs (build_base_blob_rec b st)"

text \<open>The call \<open>_build_base_blob(self.__class__)\<close>: the accumulator starts as a fresh
  instance of the class's own base blob, with nothing checked.\<close>

definition build_base_blob :: "pyclass \<Rightarrow> blob \<times> pyclass list" where
  "build_base_blob c = build_base_blob_rec c (new_base_blob c, [])"


section \<open>Entities, classes and the process state\<close>

text \<open>
  An entity object. \<open>e_class\<close> is the name of its class (\<open>type(self).__name__\<close>),
  \<open>e_dict\<close> holds its plain instance attributes (\<open>active\<close>). Values used as dictionary
  keys (uids, store keys, type names) are taken to be hashable.

  Modelled from the spec: the mixins \<open>HasFlags\<close> and \<open>HasTags\<close> are not part of the
  sources. The flags of an entity are a set of values kept in insertion order and read as
  a tuple; its tags are a mapping. Changing either marks the entity dirty.
\<close>

record entity =
  e_class :: string
  e_base_blob :: blob
  e_dirty :: bool
  e_savable :: bool
  e_uid :: val
  e_dict :: pydict
  e_flags :: "val list"
  e_tags :: pydict

text \<open>
  The class attribute \<open>_store_key\<close>: the name of the attribute that holds the key, or a
  triple of a name, a getter and a setter, either of which may fail to be callable.
\<close>

datatype store_key =
    KeyName string
  | KeyTriple string "(entity \<Rightarrow> val) option" "(entity \<Rightarrow> val \<Rightarrow> entity) option"

text \<open>The class attributes of an entity class: \<open>_store\<close> (a handle of a store, or
  \<open>None\<close>), \<open>_store_key\<close>, \<open>_uid_code\<close>, and the class with its lineage.\<close>

record eclass =
  c_pyclass :: pyclass
  c_store :: "nat option"
  c_store_key :: store_key
  c_uid_code :: string

text \<open>The classes by name, and the names registered with the manager \<open>ENTITIES\<close>.\<close>

record env =
  classes :: "string \<Rightarrow> eclass"
  registered :: "string list"

text \<open>
  Modelled from the spec: \<open>lrucache\<close> of \<open>pylru\<close> is not part of the sources. A cache has a
  fixed capacity and keeps its entries with the most recently used first.
\<close>

record lrucache =
  l_size :: nat
  l_items :: "(val \<times> nat) list"

text \<open>
  Modelled from the spec: the durable store is not part of the sources. A store maps keys
  to records; a key whose record is pending deletion is still listed by \<open>keys\<close>, but
  \<open>get\<close> fails on it and \<open>has\<close> denies it.
\<close>

type_synonym store = "(val \<times> pydict option) list"

datatype log_entry = WarnNonSavable val

text \<open>
  The state of the process: the counter \<open>Entity.__uid_timecode\<close>, the clock reading
  \<open>TIMERS.time\<close> (numbers with a fraction, taken as reals), the entity objects by
  reference, and for every class its instance registry \<open>_instances\<close> and its caches
  \<open>_caches\<close>; the stores, and the log.
\<close>

record world =
  w_uid_timecode :: real
  w_time :: real
  w_heap :: "nat \<Rightarrow> entity"
  w_next :: nat
  w_instances :: "string \<Rightarrow> (val \<times> nat) list"
  w_caches :: "string \<Rightarrow> store_key \<Rightarrow> lrucache option"
  w_stores :: "nat \<Rightarrow> store"
  w_log :: "log_entry list"

subsection \<open>The store interface\<close>

definition store_has :: "store \<Rightarrow> val \<Rightarrow> bool" where
  "store_has st k = (case map_of st k of Some (Some d) \<Rightarrow> True | _ \<Rightarrow> False)"

definition store_get :: "store \<Rightarrow> val \<Rightarrow> pydict outcome" where
  "store_get st k = (case map_of st k of Some (Some d) \<Rightarrow> Returned d | _ \<Rightarrow> Raised KeyError)"

definition store_put :: "store \<Rightarrow> val \<Rightarrow> pydict \<Rightarrow> store" where
  "store_put st k d = AList.update k (Some d) st"

definition store_delete :: "store \<Rightarrow> val \<Rightarrow> store" where
  "store_delete st k = AList.delete k st"

definition store_keys :: "store \<Rightarrow> val list" where
  "store_keys st = map fst st"

subsection \<open>The cache\<close>

definition lru_contains :: "lrucache \<Rightarrow> val \<Rightarrow> bool" where
  "lru_contains c k = (k \<in> fst ` set (l_items c))"

text \<open>The entry that setting key \<open>k\<close> evicts: the least recently used one, when the key
  is new and the cache is full.\<close>

definition lru_victim :: "lrucache \<Rightarrow> val \<Rightarrow> (val \<times> nat) option" where
  "lru_victim c k =
     (if lru_contains c k then None
      else if length (l_items c) < l_size c then None
      else (case l_items c of [] \<Rightarrow> None | _ \<Rightarrow> Some (last (l_items c))))"

definition lru_insert :: "lrucache \<Rightarrow> val \<Rightarrow> nat \<Rightarrow> lrucache" where
  "lru_insert c k r =
     (if lru_contains c k then c\<lparr> l_items := (k, r) # AList.delete k (l_items c) \<rparr>
      else if length (l_items c) < l_size c then c\<lparr> l_items := (k, r) # l_items c \<rparr>
      else c\<lparr> l_items := (k, r) # butlast (l_items c) \<rparr>)"

definition lru_delete :: "lrucache \<Rightarrow> val \<Rightarrow> lrucache" where
  "lru_delete c k = c\<lparr> l_items := AList.delete k (l_items c) \<rparr>"

subsection \<open>Identity\<close>

definition uid_timecode_multiplier :: real where
  "uid_timecode_multiplier = 10000"

definition uid_timecode_charset :: string where
  "uid_timecode_charset = ''0123456789aAbBcCdDeEfFgGhHijJkKLmMnNopPqQrRstTuUvVwWxXyYzZ''"

text \<open>
  Modelled from the spec: \<open>int_to_base_n\<close> of \<open>utils/funcs.py\<close> is not part of the
  sources. It renders a number in base N, N the length of the character set, most
  significant digit first; zero is the first character. The digits are those of the
  whole part of the number: \<open>make_uid\<close> hands it the counter, which holds a clock
  reading with its fraction. The spec gives the rendering for the non-negative numbers
  the counter takes; a negative number is rendered as zero is.
\<close>

fun base_n_digits :: "nat \<Rightarrow> nat \<Rightarrow> nat list" where
  "base_n_digits b n = (if n = 0 \<or> b < 2 then [] else base_n_digits b (n div b) @ [n mod b])"

declare base_n_digits.simps [simp del]

definition int_to_base_n :: "real \<Rightarrow> string \<Rightarrow> string" where
  "int_to_base_n x cs =
     (if \<lfloor>x\<rfloor> \<le> 0 then [cs ! 0] else map (\<lambda>d. cs ! d) (base_n_digits (length cs) (nat \<lfloor>x\<rfloor>)))"

text \<open>\<open>Entity.make_uid\<close>. \<open>TIMERS.time\<close> is a reading in seconds with a fraction, so
  \<open>big_time\<close> and the counter that takes its value are not whole numbers in general.\<close>

definition make_uid :: "eclass \<Rightarrow> world \<Rightarrow> val \<times> world" where
  "make_uid cls w =
     (let big_time = w_time w * uid_timecode_multiplier;
          timecode = (if big_time > w_uid_timecode w then big_time else w_uid_timecode w + 1);
          timecode_string = int_to_base_n timecode uid_timecode_charset
      in (VStr (c_uid_code cls @ ''-'' @ timecode_string), w\<lparr> w_uid_timecode := timecode \<rparr>))"

subsection \<open>Attributes and keys\<close>

text \<open>
  \<open>getattr(entity, name)\<close> for the names the model knows: the property \<open>uid\<close>, the
  properties of the registered fields, and the instance attributes.
\<close>

definition getattr :: "entity \<Rightarrow> string \<Rightarrow> val outcome" where
  "getattr e n =
     (if n = ''uid'' then Returned (e_uid e)
      else case map_of (b_values (e_base_blob e)) n of
             Some v \<Rightarrow> Returned v
           | None \<Rightarrow> (case map_of (e_dict e) n of
                        Some v \<Rightarrow> Returned v
                      | None \<Rightarrow> Raised AttributeError))"

text \<open>
  \<open>setattr(entity, name, value)\<close>: \<open>uid\<close> is a property without a setter; the setter of a
  registered attribute ignores the value when the attribute is read-only, and otherwise
  validates it, stores it and marks the entity dirty; the property of a registered blob
  has no setter; any other name becomes an instance attribute.
\<close>

definition setattr :: "entity \<Rightarrow> string \<Rightarrow> val \<Rightarrow> entity outcome" where
  "setattr e n v =
     (if n = ''uid'' then Raised AttributeError
      else case map_of (b_fields (e_base_blob e)) n of
             Some (Attr a) \<Rightarrow>
               if a_read_only a then Returned e
               else (case a_validate a v of
                       Raised err \<Rightarrow> Raised err
                     | Returned v' \<Rightarrow>
                         Returned (e\<lparr> e_base_blob := (e_base_blob e)
                                       \<lparr> b_values := AList.update n v' (b_values (e_base_blob e)) \<rparr>,
                                     e_dirty := True \<rparr>))
           | Some (SubBlob d) \<Rightarrow> Raised AttributeError
           | None \<Rightarrow> Returned (e\<lparr> e_dict := AList.update n v (e_dict e) \<rparr>))"

text \<open>The property \<open>key\<close> and its setter.\<close>

definition entity_key :: "eclass \<Rightarrow> entity \<Rightarrow> val outcome" where
  "entity_key cls e =
     (case c_store_key cls of
        KeyTriple n (Some getter) s \<Rightarrow> Returned (getter e)
      | KeyTriple n None s \<Rightarrow> Raised TypeError
      | KeyName n \<Rightarrow> getattr e n)"

definition set_entity_key :: "eclass \<Rightarrow> entity \<Rightarrow> val \<Rightarrow> entity outcome" where
  "set_entity_key cls e new_key =
     (case c_store_key cls of
        KeyTriple n g (Some setter) \<Rightarrow> Returned (setter e new_key)
      | KeyTriple n g None \<Rightarrow> Raised TypeError
      | KeyName n \<Rightarrow> setattr e n new_key)"

definition get_key_name :: "eclass \<Rightarrow> store_key" where
  "get_key_name cls =
     (case c_store_key cls of
        KeyTriple n (Some getter) (Some setter) \<Rightarrow> KeyName n
      | k \<Rightarrow> k)"

definition is_savable :: "eclass \<Rightarrow> entity \<Rightarrow> bool" where
  "is_savable cls e = (c_store cls \<noteq> None \<and> e_savable e)"

subsection \<open>Serialize and deserialize\<close>

text \<open>Modelled from the spec: \<open>DataBlob.serialize\<close> emits the values of the fields, and
  \<open>DataBlob.deserialize\<close> takes over the value of every key that is a field of the
  schema.\<close>

definition blob_serialize :: "blob \<Rightarrow> pydict" where
  "blob_serialize b = b_values b"

definition blob_deserialize :: "blob \<Rightarrow> pydict \<Rightarrow> blob" where
  "blob_deserialize b data =
     b\<lparr> b_values := AList.merge (b_values b) (AList.restrict (fst ` set (b_fields b)) data) \<rparr>"

definition serialize :: "entity \<Rightarrow> pydict" where
  "serialize e =
     AList.update ''tags'' (VDict (e_tags e))
       (AList.update ''flags'' (VTuple (e_flags e))
          (AList.update ''uid'' (e_uid e)
             (AList.update ''type'' (VStr (e_class e))
                (blob_serialize (e_base_blob e)))))"

text \<open>The values \<open>*value\<close> unpacks: the items of a tuple, the characters of a string, the
  keys of a dict; nothing else is iterable.\<close>

fun py_iter :: "val \<Rightarrow> val list option" where
  "py_iter (VTuple vs) = Some vs"
| "py_iter (VStr s) = Some (map (\<lambda>c. VStr [c]) s)"
| "py_iter (VDict d) = Some (map (\<lambda>kv. VStr (fst kv)) d)"
| "py_iter v = None"

definition flags_add :: "val list \<Rightarrow> val list \<Rightarrow> val list" where
  "flags_add fs new = fold (\<lambda>v acc. if v \<in> set acc then acc else acc @ [v]) new fs"

text \<open>
  \<open>Entity.deserialize\<close>. The entity is returned as it is when the method returns or
  raises. The keys \<open>type\<close>, \<open>uid\<close>, \<open>flags\<close> and \<open>tags\<close> are taken out of the data in turn
  and the rest goes to the base blob.
\<close>

definition deserialize_blob :: "entity \<Rightarrow> pydict \<Rightarrow> entity" where
  "deserialize_blob e d =
     e\<lparr> e_base_blob := blob_deserialize (e_base_blob e) d,
       e_dirty := (e_dirty e \<or> AList.restrict (fst ` set (b_fields (e_base_blob e))) d \<noteq> []) \<rparr>"

definition deserialize :: "entity \<Rightarrow> pydict \<Rightarrow> unit outcome \<times> entity" where
  "deserialize e data =
     (let d1 = AList.delete ''type'' data;
          e1 = (case map_of d1 ''uid'' of Some u \<Rightarrow> e\<lparr> e_uid := u \<rparr> | None \<Rightarrow> e);
          d2 = AList.delete ''uid'' d1;
          d3 = AList.delete ''flags'' d2;
          d4 = AList.delete ''tags'' d3
      in case (case map_of d2 ''flags'' of
                 None \<Rightarrow> Some e1
               | Some fv \<Rightarrow> (case py_iter fv of
                               None \<Rightarrow> None
                             | Some vs \<Rightarrow> Some (e1\<lparr> e_flags := flags_add (e_flags e1) vs,
                                                    e_dirty := True \<rparr>))) of
           None \<Rightarrow> (Raised TypeError, e1)
         | Some e2 \<Rightarrow>
             (case map_of d3 ''tags'' of
                Some (VDict t) \<Rightarrow>
                  (Returned (), deserialize_blob (e2\<lparr> e_tags := t, e_dirty := True \<rparr>) d4)
              | Some other \<Rightarrow> (Raised TypeError, e2\<lparr> e_tags := [], e_dirty := True \<rparr>)
              | None \<Rightarrow> (Returned (), deserialize_blob e2 d4)))"

subsection \<open>Lifecycle: save, revert, construction, clone, delete\<close>

text \<open>
  \<open>Entity.save\<close>, on the entity at reference \<open>r\<close>. A result is the outcome of the call
  together with the state the call leaves, also when it raises.
\<close>

definition save :: "env \<Rightarrow> nat \<Rightarrow> world \<Rightarrow> unit outcome \<times> world" where
  "save env r w =
     (let e = w_heap w r; cls = classes env (e_class e)
      in if \<not> is_savable cls e
         then (Returned (), w\<lparr> w_log := w_log w @ [WarnNonSavable (e_uid e)] \<rparr>)
         else (case c_store cls of
                 None \<Rightarrow> (Returned (), w\<lparr> w_log := w_log w @ [WarnNonSavable (e_uid e)] \<rparr>)
               | Some sid \<Rightarrow>
                   (let st = w_stores w sid;
                        st1 = (case map_of (e_tags e) ''_old_key'' of
                                 Some old_key \<Rightarrow>
                                   if store_has st old_key then store_delete st old_key else st
                               | None \<Rightarrow> st);
                        e1 = (case map_of (e_tags e) ''_old_key'' of
                                Some old_key \<Rightarrow>
                                  e\<lparr> e_tags := AList.delete ''_old_key'' (e_tags e), e_dirty := True \<rparr>
                              | None \<Rightarrow> e);
                        data = serialize e1;
                        w1 = w\<lparr> w_heap := (w_heap w)(r := e1),
                                w_stores := (w_stores w)(sid := st1) \<rparr>
                    in case entity_key cls e1 of
                         Raised err \<Rightarrow> (Raised err, w1)
                       | Returned k \<Rightarrow>
                           (Returned (),
                            w\<lparr> w_heap := (w_heap w)(r := e1\<lparr> e_dirty := False \<rparr>),
                               w_stores := (w_stores w)(sid := store_put st1 k data) \<rparr>))))"

text \<open>\<open>_EntityMeta._cache_eject_callback\<close>.\<close>

definition cache_eject_callback :: "env \<Rightarrow> val \<Rightarrow> nat \<Rightarrow> world \<Rightarrow> unit outcome \<times> world" where
  "cache_eject_callback env key r w = save env r w"

text \<open>
  \<open>cache[key] = entity\<close> on the cache \<open>kn\<close> of class \<open>cname\<close>: when the cache is full and
  the key is new, the callback runs on the least recently used entry, and then the entry
  is dropped and the new one put in front.
\<close>

definition cache_set :: "env \<Rightarrow> string \<Rightarrow> store_key \<Rightarrow> lrucache \<Rightarrow> val \<Rightarrow> nat \<Rightarrow> world
    \<Rightarrow> unit outcome \<times> world" where
  "cache_set env cname kn c k r w =
     (case lru_victim c k of
        None \<Rightarrow>
          (Returned (),
           w\<lparr> w_caches := (w_caches w)(cname := (w_caches w cname)(kn := Some (lru_insert c k r))) \<rparr>)
      | Some (vk, vr) \<Rightarrow>
          (case cache_eject_callback env vk vr w of
             (Raised err, w1) \<Rightarrow> (Raised err, w1)
           | (Returned u, w1) \<Rightarrow>
               (Returned (),
                w1\<lparr> w_caches :=
                      (w_caches w1)(cname := (w_caches w1 cname)(kn := Some (lru_insert c k r))) \<rparr>)))"

text \<open>
  \<open>Entity.revert\<close>.
\<close>

definition revert :: "env \<Rightarrow> nat \<Rightarrow> world \<Rightarrow> unit outcome \<times> world" where
  "revert env r w =
     (let e = w_heap w r; cls = classes env (e_class e)
      in case c_store cls of
           None \<Rightarrow> (Raised TypeError, w)
         | Some sid \<Rightarrow>
             (case entity_key cls e of
                Raised err \<Rightarrow> (Raised err, w)
              | Returned k \<Rightarrow>
                  (case store_get (w_stores w sid) k of
                     Raised err \<Rightarrow> (Raised err, w)
                   | Returned data \<Rightarrow>
                       (case map_of data ''uid'' of
                          None \<Rightarrow> (Raised KeyError, w)
                        | Some u \<Rightarrow>
                            if e_uid e \<noteq> u then (Raised ValueError, w)
                            else (case deserialize e data of
                                    (Raised err, e1) \<Rightarrow>
                                      (Raised err, w\<lparr> w_heap := (w_heap w)(r := e1) \<rparr>)
                                  | (Returned x, e1) \<Rightarrow>
                                      (Returned (),
                                       w\<lparr> w_heap := (w_heap w)(r := e1\<lparr> e_dirty := False \<rparr>) \<rparr>))))))"

text \<open>
  The object as \<open>Entity.__init__\<close> has it before it looks at \<open>data\<close>: the composed base
  blob, no uid, no flags, no tags.
\<close>

definition new_entity :: "env \<Rightarrow> string \<Rightarrow> bool \<Rightarrow> bool \<Rightarrow> entity" where
  "new_entity env cname active savable =
     \<lparr> e_class = cname,
       e_base_blob = fst (build_base_blob (c_pyclass (classes env cname))),
       e_dirty = False, e_savable = savable, e_uid = VNone,
       e_dict = [(''active'', VBool active)], e_flags = [], e_tags = [] \<rparr>"

text \<open>
  \<open>Entity.__init__\<close> for the class named \<open>cname\<close>; the result is the reference of the new
  object.
\<close>

definition entity_init :: "env \<Rightarrow> string \<Rightarrow> pydict option \<Rightarrow> bool \<Rightarrow> bool \<Rightarrow> world
    \<Rightarrow> nat outcome \<times> world" where
  "entity_init env cname data active savable w =
     (let cls = classes env cname;
          r = w_next w;
          e0 = new_entity env cname active savable;
          w0 = w\<lparr> w_next := r + 1 \<rparr>
      in case (case data of None \<Rightarrow> (Returned (), e0) | Some d \<Rightarrow> deserialize e0 d) of
           (Raised err, e1) \<Rightarrow> (Raised err, w0\<lparr> w_heap := (w_heap w0)(r := e1) \<rparr>)
         | (Returned x, e1) \<Rightarrow>
             (let made = make_uid cls w0;
                  e2 = (if e_uid e1 = VNone then e1\<lparr> e_uid := fst made \<rparr> else e1);
                  w1 = (if e_uid e1 = VNone then snd made else w0);
                  w2 = w1\<lparr> w_heap := (w_heap w1)(r := e2),
                           w_instances := (w_instances w1)
                             (cname := AList.update (e_uid e2) r (w_instances w1 cname)) \<rparr>
              in case w_caches w2 cname (get_key_name cls) of
                   None \<Rightarrow> (Returned r, w2)
                 | Some c \<Rightarrow>
                     (case entity_key cls e2 of
                        Raised err \<Rightarrow> (Raised err, w2)
                      | Returned k \<Rightarrow>
                          if lru_contains c k then (Returned r, w2)
                          else (case cache_set env cname (get_key_name cls) c k r w2 of
                                  (Raised err, w3) \<Rightarrow> (Raised err, w3)
                                | (Returned u, w3) \<Rightarrow> (Returned r, w3)))))"

text \<open>Truth of a value, as \<open>if value\<close> and \<open>not value\<close> read it.\<close>

fun py_truthy :: "val \<Rightarrow> bool" where
  "py_truthy VNone = False"
| "py_truthy (VBool b) = b"
| "py_truthy (VInt i) = (i \<noteq> 0)"
| "py_truthy (VStr s) = (s \<noteq> [])"
| "py_truthy (VTuple vs) = (vs \<noteq> [])"
| "py_truthy (VDict d) = (d \<noteq> [])"

text \<open>\<open>Entity.reconstruct\<close>.\<close>

definition reconstruct :: "env \<Rightarrow> pydict \<Rightarrow> world \<Rightarrow> nat outcome \<times> world" where
  "reconstruct env data w =
     (let entity_name = (case map_of data ''type'' of Some v \<Rightarrow> v | None \<Rightarrow> VNone);
          d = AList.delete ''type'' data
      in if \<not> py_truthy entity_name then (Raised KeyError, w)
         else (case entity_name of
                 VStr s \<Rightarrow>
                   if s \<in> set (registered env) then entity_init env s (Some d) False True w
                   else (Raised KeyError, w)
               | other \<Rightarrow> (Raised KeyError, w)))"

text \<open>The argument of \<open>clone\<close>: a key, or a callable that makes one.\<close>

datatype key_arg = Key val | KeyGen "unit \<Rightarrow> val"

definition resolve_key :: "key_arg \<Rightarrow> val" where
  "resolve_key a = (case a of Key v \<Rightarrow> v | KeyGen f \<Rightarrow> f ())"

text \<open>\<open>Entity.clone\<close>.\<close>

definition clone :: "env \<Rightarrow> nat \<Rightarrow> key_arg \<Rightarrow> world \<Rightarrow> nat outcome \<times> world" where
  "clone env r new_key_arg w =
     (let e = w_heap w r; cls = classes env (e_class e)
      in case c_store cls of
           None \<Rightarrow> (Raised TypeError, w)
         | Some sid \<Rightarrow>
             (let new_key = resolve_key new_key_arg
              in if store_has (w_stores w sid) new_key then (Raised KeyError, w)
                 else (let data = AList.delete ''uid'' (serialize e)
                       in case entity_init env (e_class e) (Some data) False True w of
                            (Raised err, w1) \<Rightarrow> (Raised err, w1)
                          | (Returned r', w1) \<Rightarrow>
                              (case set_entity_key cls (w_heap w1 r') new_key of
                                 Raised err \<Rightarrow> (Raised err, w1)
                               | Returned e' \<Rightarrow>
                                   (Returned r', w1\<lparr> w_heap := (w_heap w1)(r' := e') \<rparr>)))))"

text \<open>\<open>Entity.delete\<close>. An empty cache is false in \<open>if cache and ...\<close>.\<close>

definition delete :: "env \<Rightarrow> nat \<Rightarrow> world \<Rightarrow> unit outcome \<times> world" where
  "delete env r w =
     (let e = w_heap w r; cname = e_class e; cls = classes env cname; kn = get_key_name cls
      in case (case w_caches w cname kn of
                 None \<Rightarrow> (Returned (), w)
               | Some c \<Rightarrow>
                   if l_items c = [] then (Returned (), w)
                   else (case entity_key cls e of
                           Raised err \<Rightarrow> (Raised err, w)
                         | Returned k \<Rightarrow>
                             if lru_contains c k
                             then (Returned (),
                                   w\<lparr> w_caches := (w_caches w)
                                        (cname := (w_caches w cname)(kn := Some (lru_delete c k))) \<rparr>)
                             else (Returned (), w))) of
           (Raised err, w1) \<Rightarrow> (Raised err, w1)
         | (Returned x, w1) \<Rightarrow>
             (case c_store cls of
                None \<Rightarrow> (Returned (), w1)
              | Some sid \<Rightarrow>
                  (case entity_key cls e of
                     Raised err \<Rightarrow> (Raised err, w1)
                   | Returned k \<Rightarrow>
                       if store_has (w_stores w1 sid) k
                       then (Returned (),
                             w1\<lparr> w_stores := (w_stores w1)(sid := store_delete (w_stores w1 sid) k) \<rparr>)
                       else (Returned (), w1))))"

subsection \<open>Lookup: exists and find\<close>

text \<open>The scan of \<open>exists\<close> over the instances of a class that is not keyed by uid.\<close>

fun exists_scan :: "eclass \<Rightarrow> (nat \<Rightarrow> entity) \<Rightarrow> val \<Rightarrow> nat list \<Rightarrow> bool outcome" where
  "exists_scan cls heap key [] = Returned False"
| "exists_scan cls heap key (r # rs) =
     (case entity_key cls (heap r) of
        Raised err \<Rightarrow> Raised err
      | Returned k \<Rightarrow> if k = key then Returned True else exists_scan cls heap key rs)"

text \<open>\<open>Entity.exists\<close>, for the class named \<open>cname\<close>.\<close>

definition exists :: "env \<Rightarrow> string \<Rightarrow> val \<Rightarrow> world \<Rightarrow> bool outcome" where
  "exists env cname key w =
     (let cls = classes env cname
      in if (case c_store cls of Some sid \<Rightarrow> store_has (w_stores w sid) key | None \<Rightarrow> False)
         then Returned True
         else if get_key_name cls = KeyName ''uid''
         then (if key \<in> fst ` set (w_instances w cname) then Returned True else Returned False)
         else exists_scan cls (w_heap w) key (map snd (w_instances w cname)))"

text \<open>The loop of \<open>find\<close> that splits its arguments into pairs.\<close>

fun parse_pairs :: "val list \<Rightarrow> (val \<times> val) list outcome" where
  "parse_pairs [] = Returned []"
| "parse_pairs [a] = Raised ValueError"
| "parse_pairs (a # v # rest) =
     (case parse_pairs rest of
        Raised err \<Rightarrow> Raised err
      | Returned ps \<Rightarrow> Returned ((a, v) # ps))"

text \<open>\<open>[getattr(entity, _attr) == _value for _attr, _value in pairs]\<close>; the name of an
  attribute must be a string.\<close>

fun entity_matches :: "entity \<Rightarrow> (val \<times> val) list \<Rightarrow> bool list outcome" where
  "entity_matches e [] = Returned []"
| "entity_matches e ((a, v) # ps) =
     (case (case a of VStr n \<Rightarrow> getattr e n | other \<Rightarrow> Raised TypeError) of
        Raised err \<Rightarrow> Raised err
      | Returned x \<Rightarrow>
          (case entity_matches e ps of
             Raised err \<Rightarrow> Raised err
           | Returned ms \<Rightarrow> Returned ((x = v) # ms)))"

text \<open>\<open>[data.get(_attr) == _value for _attr, _value in pairs]\<close>.\<close>

definition dict_get :: "pydict \<Rightarrow> val \<Rightarrow> val" where
  "dict_get d a = (case a of VStr n \<Rightarrow> (case map_of d n of Some v \<Rightarrow> v | None \<Rightarrow> VNone)
                             | other \<Rightarrow> VNone)"

definition data_matches :: "pydict \<Rightarrow> (val \<times> val) list \<Rightarrow> bool list" where
  "data_matches d ps = map (\<lambda>(a, v). dict_get d a = v) ps"

text \<open>\<open>all\<close> and \<open>any\<close>, the two match functions.\<close>

definition py_all :: "bool list \<Rightarrow> bool" where
  "py_all bs = list_all (\<lambda>b. b) bs"

definition py_any :: "bool list \<Rightarrow> bool" where
  "py_any bs = list_ex (\<lambda>b. b) bs"

definition set_add :: "'a \<Rightarrow> 'a list \<Rightarrow> 'a list" where
  "set_add x xs = (if x \<in> set xs then xs else xs @ [x])"

text \<open>The loop of \<open>find\<close> over the instance registry; \<open>found\<close> and \<open>checked_keys\<close> are
  sets, kept in the order of insertion.\<close>

fun find_in_cache :: "eclass \<Rightarrow> (nat \<Rightarrow> entity) \<Rightarrow> (val \<times> val) list \<Rightarrow> (bool list \<Rightarrow> bool)
    \<Rightarrow> int \<Rightarrow> nat list \<Rightarrow> nat list \<times> val list \<Rightarrow> (nat list \<times> val list) outcome" where
  "find_in_cache cls heap pairs match n [] (found, checked) = Returned (found, checked)"
| "find_in_cache cls heap pairs match n (r # rs) (found, checked) =
     (case entity_matches (heap r) pairs of
        Raised err \<Rightarrow> Raised err
      | Returned ms \<Rightarrow>
          (let found' = (if match ms then set_add r found else found)
           in if match ms \<and> n \<noteq> 0 \<and> int (length found') \<ge> n then Returned (found', checked)
              else (case entity_key cls (heap r) of
                      Raised err \<Rightarrow> Raised err
                    | Returned k \<Rightarrow>
                        find_in_cache cls heap pairs match n rs (found', set_add k checked))))"

text \<open>The loop of \<open>find\<close> over the keys of the store.\<close>

fun find_in_store :: "env \<Rightarrow> nat \<Rightarrow> (val \<times> val) list \<Rightarrow> (bool list \<Rightarrow> bool) \<Rightarrow> int
    \<Rightarrow> val list \<Rightarrow> val list \<Rightarrow> nat list \<Rightarrow> world \<Rightarrow> nat list outcome \<times> world" where
  "find_in_store env sid pairs match n checked [] found w = (Returned found, w)"
| "find_in_store env sid pairs match n checked (key # keys) found w =
     (if key \<in> set checked then find_in_store env sid pairs match n checked keys found w
      else (case store_get (w_stores w sid) key of
              Raised err \<Rightarrow> find_in_store env sid pairs match n checked keys found w
            | Returned data \<Rightarrow>
                if data = [] then find_in_store env sid pairs match n checked keys found w
                else if match (data_matches data pairs)
                then (case reconstruct env data w of
                        (Raised err, w1) \<Rightarrow> (Raised err, w1)
                      | (Returned r, w1) \<Rightarrow>
                          (let w2 = w1\<lparr> w_heap := (w_heap w1)(r := (w_heap w1 r)\<lparr> e_dirty := False \<rparr>) \<rparr>;
                               found' = set_add r found
                           in if n \<noteq> 0 \<and> int (length found') \<ge> n then (Returned found', w2)
                              else find_in_store env sid pairs match n checked keys found' w2))
                else find_in_store env sid pairs match n checked keys found w))"

text \<open>What \<open>find\<close> returns: one entity or \<open>None\<close> when \<open>n\<close> is 1, else a list.\<close>

datatype find_result = One "nat option" | Many "nat list"

text \<open>\<open>Entity.find\<close>, for the class named \<open>cname\<close>.\<close>

definition find_entities :: "env \<Rightarrow> string \<Rightarrow> val list \<Rightarrow> bool \<Rightarrow> bool \<Rightarrow> (bool list \<Rightarrow> bool)
    \<Rightarrow> int \<Rightarrow> world \<Rightarrow> find_result outcome \<times> world" where
  "find_entities env cname attr_value_pairs cache store match n w =
     (let cls = classes env cname
      in case parse_pairs attr_value_pairs of
           Raised err \<Rightarrow> (Raised err, w)
         | Returned pairs \<Rightarrow>
             (case (if cache
                    then find_in_cache cls (w_heap w) pairs match n
                           (map snd (w_instances w cname)) ([], [])
                    else Returned ([], [])) of
                Raised err \<Rightarrow> (Raised err, w)
              | Returned (found, checked) \<Rightarrow>
                  (case (if store \<and> (n = 0 \<or> int (length found) < n)
                         then (case c_store cls of
                                 None \<Rightarrow> (Raised AttributeError, w)
                               | Some sid \<Rightarrow>
                                   find_in_store env sid pairs match n checked
                                     (store_keys (w_stores w sid)) found w)
                         else (Returned found, w)) of
                     (Raised err, w1) \<Rightarrow> (Raised err, w1)
                   | (Returned found', w1) \<Rightarrow>
                       (Returned (if n = 1
                                  then One (case found' of [] \<Rightarrow> None | x # xs \<Rightarrow> Some x)
                                  else Many found'),
                        w1))))"


text \<open>The classes of a lineage that are entity classes: those whose base blob is merged.\<close>

definition entity_lineage :: "pyclass \<Rightarrow> pyclass set" where
  "entity_lineage c = {a \<in> lineage c. issubclass a Entity}"

text \<open>An example hierarchy with a diamond: \<open>D(B, C)\<close>, \<open>B(A)\<close>, \<open>C(A)\<close>, \<open>A(Entity)\<close>.\<close>

definition ex_name_attr :: attr_def where
  "ex_name_attr = \<lparr> a_default = VStr ''thing'', a_read_only = False, a_validate = Returned \<rparr>"

definition ex_weight_attr :: attr_def where
  "ex_weight_attr = \<lparr> a_default = VInt 0, a_read_only = False, a_validate = Returned \<rparr>"

definition ex_A :: pyclass where
  "ex_A = PyClass ''A'' [(''name'', Attr ex_name_attr)] [Entity]"

definition ex_B :: pyclass where
  "ex_B = PyClass ''B'' [(''weight'', Attr ex_weight_attr)] [ex_A]"

definition ex_C :: pyclass where
  "ex_C = PyClass ''C'' [(''stats'', SubBlob [(''hp'', VInt 10)])] [ex_A]"

definition ex_D :: pyclass where
  "ex_D = PyClass ''D'' [] [ex_B, ex_C]"

text \<open>An example: the class \<open>Item\<close> with an attribute \<open>name\<close>, keyed by uid and kept in
  store 0; an environment that knows it; and the state of a process that has made no
  entity yet, with an empty cache of the default size for the class.\<close>

definition ex_Item :: pyclass where
  "ex_Item = PyClass ''Item'' [(''name'', Attr ex_name_attr)] [Entity]"

definition ex_item :: eclass where
  "ex_item = \<lparr> c_pyclass = ex_Item, c_store = Some 0, c_store_key = KeyName ''uid'',
     c_uid_code = ''E'' \<rparr>"

definition ex_env :: env where
  "ex_env = \<lparr> classes = (\<lambda>n. ex_item), registered = [''Item''] \<rparr>"

definition ex_world :: world where
  "ex_world = \<lparr> w_uid_timecode = 0, w_time = 1,
     w_heap = (\<lambda>r. new_entity ex_env ''Item'' False True), w_next = 0,
     w_instances = (\<lambda>c. []),
     w_caches = (\<lambda>c k. if k = KeyName ''uid'' then Some \<lparr> l_size = 512, l_items = [] \<rparr> else None),
     w_stores = (\<lambda>s. []), w_log = [] \<rparr>"

text \<open>The same class with no store configured, and its environment.\<close>

definition ex_transient :: eclass where
  "ex_transient = ex_item\<lparr> c_store := None \<rparr>"

definition ex_env_transient :: env where
  "ex_env_transient = \<lparr> classes = (\<lambda>n. ex_transient), registered = [''Item''] \<rparr>"

text \<open>An item with uid \<open>E-1\<close>, and the state in which it is the one live instance, cached
  and saved under its uid.\<close>

definition ex_sword :: entity where
  "ex_sword = (new_entity ex_env ''Item'' False True)\<lparr> e_uid := VStr ''E-1'' \<rparr>"

definition ex_world1 :: world where
  "ex_world1 = ex_world\<lparr> w_heap := (\<lambda>r. ex_sword), w_next := 1,
     w_instances := (\<lambda>c. [(VStr ''E-1'', 0)]),
     w_caches := (\<lambda>c k. if k = KeyName ''uid''
                         then Some \<lparr> l_size = 512, l_items = [(VStr ''E-1'', 0)] \<rparr> else None),
     w_stores := (\<lambda>s. [(VStr ''E-1'', Some (serialize ex_sword))]) \<rparr>"

text \<open>The class keyed by its attribute \<open>name\<close>, and the state in which the item is saved
  and cached under its name, after one uid has been issued.\<close>

definition ex_named :: eclass where
  "ex_named = ex_item\<lparr> c_store_key := KeyName ''name'' \<rparr>"

definition ex_env_named :: env where
  "ex_env_named = \<lparr> classes = (\<lambda>n. ex_named), registered = [''Item''] \<rparr>"

definition ex_world_named :: world where
  "ex_world_named = ex_world1\<lparr> w_uid_timecode := 1,
     w_caches := (\<lambda>c k. if k = KeyName ''name''
                         then Some \<lparr> l_size = 512, l_items = [(VStr ''thing'', 0)] \<rparr> else None),
     w_stores := (\<lambda>s. [(VStr ''thing'', Some (serialize ex_sword))]) \<rparr>"

text \<open>The entities a result of \<open>find\<close> holds, and the value \<open>find\<close> compares for a pair:
  \<open>getattr(entity, attr)\<close>, which wants a string for the name.\<close>

fun result_refs :: "find_result \<Rightarrow> nat list" where
  "result_refs (One None) = []"
| "result_refs (One (Some r)) = [r]"
| "result_refs (Many rs) = rs"

definition entity_attr :: "entity \<Rightarrow> val \<Rightarrow> val outcome" where
  "entity_attr e a = (case a of VStr n \<Rightarrow> getattr e n | other \<Rightarrow> Raised TypeError)"

text \<open>The item as it is in memory after some changes that were not saved, a record of the
  same uid that differs from it, and the state in which the item is live and the record is
  the one in the store.\<close>

definition ex_worn_sword :: entity where
  "ex_worn_sword = ex_sword\<lparr> e_base_blob := (e_base_blob ex_sword)
       \<lparr> b_values := [(''name'', VStr ''sword''), (''version'', VInt 1)] \<rparr>,
     e_dirty := True, e_flags := [VStr ''rusty''] \<rparr>"

definition ex_axe_record :: pydict where
  "ex_axe_record = [(''name'', VStr ''axe''), (''type'', VStr ''Item''), (''uid'', VStr ''E-1''),
     (''flags'', VTuple [VStr ''sharp'']), (''tags'', VDict [(''owner'', VStr ''smith'')])]"

definition ex_world_axe :: world where
  "ex_world_axe = ex_world1\<lparr> w_heap := (\<lambda>r. ex_worn_sword),
     w_stores := (\<lambda>s. [(VStr ''E-1'', Some ex_axe_record)]) \<rparr>"

section \<open>Schema composition\<close>

lemmas ex_class_defs = ex_A_def ex_B_def ex_C_def ex_D_def Entity_def HasFlags_def
  HasTags_def HasWeaks_def py_object_def

lemma build_base_blob_rec_unfold:
  "build_base_blob_rec (PyClass n fs bs) st =
     (if issubclass (PyClass n fs bs) Entity \<and> PyClass n fs bs \<notin> set (snd (build_bases bs st))
      then (blob_update (fst (build_bases bs st)) (new_base_blob (PyClass n fs bs)),
            snd (build_bases bs st) @ [PyClass n fs bs])
      else build_bases bs st)"
  by (cases "build_bases bs st") (simp del: issubclass.simps)

lemma lineage_unfold: "lineage (PyClass n fs bs) = insert (PyClass n fs bs) (\<Union>b \<in> set bs. lineage b)"
  by simp

lemma checked_set:
  "set (snd (build_base_blob_rec c st)) = set (snd st) \<union> {a \<in> lineage c. issubclass a Entity}"
  "set (snd (build_bases cs st)) = set (snd st) \<union> {a. \<exists>c \<in> set cs. a \<in> lineage c \<and> issubclass a Entity}"
proof (induction c st and cs st rule: build_base_blob_rec_build_bases.induct)
  case (1 n fs bs st)
  let ?c = "PyClass n fs bs"
  have L: "{a \<in> lineage ?c. issubclass a Entity} =
        {a. \<exists>c \<in> set bs. a \<in> lineage c \<and> issubclass a Entity} \<union> (if issubclass ?c Entity then {?c} else {})"
    unfolding lineage_unfold by (cases "issubclass ?c Entity") (auto simp del: issubclass.simps)
  show ?case unfolding build_base_blob_rec_unfold L using 1 by (auto simp del: issubclass.simps)
next
  case (2 st) show ?case by simp
next
  case (3 b bs st)
  show ?case unfolding build_bases.simps 3 by auto
qed

lemma checked_distinct:
  "distinct (snd st) \<Longrightarrow> distinct (snd (build_base_blob_rec c st))"
  "distinct (snd st) \<Longrightarrow> distinct (snd (build_bases cs st))"
proof (induction c st and cs st rule: build_base_blob_rec_build_bases.induct)
  case (1 n fs bs st)
  then show ?case unfolding build_base_blob_rec_unfold by simp
next
  case (2 st) then show ?case by simp
next
  case (3 b bs st)
  then show ?case by simp
qed

lemma build_fold:
  "\<exists>new. snd (build_base_blob_rec c st) = snd st @ new \<and>
     fst (build_base_blob_rec c st) = foldl blob_update (fst st) (map new_base_blob new)"
  "\<exists>new. snd (build_bases cs st) = snd st @ new \<and>
     fst (build_bases cs st) = foldl blob_update (fst st) (map new_base_blob new)"
proof (induction c st and cs st rule: build_base_blob_rec_build_bases.induct)
  case (1 n fs bs st)
  then obtain new where n: "snd (build_bases bs st) = snd st @ new"
     "fst (build_bases bs st) = foldl blob_update (fst st) (map new_base_blob new)" by blast
  show ?case
  proof (cases "issubclass (PyClass n fs bs) Entity \<and> PyClass n fs bs \<notin> set (snd (build_bases bs st))")
    case True
    have "snd (build_base_blob_rec (PyClass n fs bs) st) = snd st @ (new @ [PyClass n fs bs]) \<and>
      fst (build_base_blob_rec (PyClass n fs bs) st) =
        foldl blob_update (fst st) (map new_base_blob (new @ [PyClass n fs bs]))"
      unfolding build_base_blob_rec_unfold using True n by simp
    then show ?thesis by blast
  next
    case False
    have "snd (build_base_blob_rec (PyClass n fs bs) st) = snd st @ new \<and>
      fst (build_base_blob_rec (PyClass n fs bs) st) =
        foldl blob_update (fst st) (map new_base_blob new)"
      unfolding build_base_blob_rec_unfold using False n by simp
    then show ?thesis by blast
  qed
next
  case (2 st) show ?case by simp
next
  case (3 b bs st)
  then obtain n1 where n1: "snd (build_base_blob_rec b st) = snd st @ n1"
     "fst (build_base_blob_rec b st) = foldl blob_update (fst st) (map new_base_blob n1)" by blast
  from 3 obtain n2 where n2: "snd (build_bases bs (build_base_blob_rec b st)) = snd (build_base_blob_rec b st) @ n2"
     "fst (build_bases bs (build_base_blob_rec b st)) = foldl blob_update (fst (build_base_blob_rec b st)) (map new_base_blob n2)" by blast
  have "snd (build_bases (b # bs) st) = snd st @ (n1 @ n2) \<and>
     fst (build_bases (b # bs) st) = foldl blob_update (fst st) (map new_base_blob (n1 @ n2))"
    using n1 n2 by simp
  then show ?case by blast
qed

lemma fold_names:
  "fst ` set (b_fields (foldl blob_update b (map new_base_blob cs))) =
     fst ` set (b_fields b) \<union> (\<Union>c \<in> set cs. fst ` set (cls_fields c))"
proof (induction cs arbitrary: b)
  case Nil show ?case by simp
next
  case (Cons c cs)
  have "fst ` set (b_fields (blob_update b (new_base_blob c))) = fst ` set (b_fields b) \<union> fst ` set (cls_fields c)"
    by (simp add: blob_update_def new_base_blob_def dom_merge)
  then show ?case using Cons[of "blob_update b (new_base_blob c)"] by auto
qed

lemma fold_distinct:
  "distinct (map fst (b_fields b)) \<Longrightarrow> distinct (map fst (b_fields (foldl blob_update b cs)))"
  by (induction cs arbitrary: b) (simp_all add: blob_update_def distinct_merge)

lemma self_lineage: "c \<in> lineage c" by (cases c) simp

text \<open>
  C9. For a concrete entity class, the schema composed at construction time holds exactly
  the field names declared by the entity classes of its lineage; the classes merged are
  exactly those classes, each of them once (also when a class is reachable along several
  base-class paths), and the composed blob is the own blob updated with theirs in turn.
\<close>

theorem C9_composed_schema:
  assumes "issubclass c Entity"
  shows "fst ` set (b_fields (fst (build_base_blob c))) = (\<Union>a \<in> entity_lineage c. fst ` set (cls_fields a))
    \<and> set (snd (build_base_blob c)) = entity_lineage c
    \<and> distinct (snd (build_base_blob c))
    \<and> fst (build_base_blob c) = foldl blob_update (new_base_blob c) (map new_base_blob (snd (build_base_blob c)))"
proof -
  let ?st = "(new_base_blob c, [])"
  obtain bl ch where r: "build_base_blob_rec c ?st = (bl, ch)" by (cases "build_base_blob_rec c ?st")
  have s: "set ch = entity_lineage c"
    using checked_set(1)[of c ?st] r by (simp add: entity_lineage_def)
  have d: "distinct ch"
    using checked_distinct(1)[of ?st c] r by simp
  have f: "bl = foldl blob_update (new_base_blob c) (map new_base_blob ch)"
    using build_fold(1)[of c ?st] r by simp
  have "c \<in> entity_lineage c" using assms self_lineage by (simp add: entity_lineage_def)
  then have own: "fst ` set (cls_fields c) \<subseteq> (\<Union>a \<in> entity_lineage c. fst ` set (cls_fields a))" by blast
  have "fst ` set (b_fields bl) =
        fst ` set (cls_fields c) \<union> (\<Union>a \<in> entity_lineage c. fst ` set (cls_fields a))"
    unfolding f fold_names s by (simp add: new_base_blob_def)
  also have "\<dots> = (\<Union>a \<in> entity_lineage c. fst ` set (cls_fields a))"
    using own by (rule Un_absorb1)
  finally have n: "fst ` set (b_fields bl) = (\<Union>a \<in> entity_lineage c. fst ` set (cls_fields a))" .
  show ?thesis unfolding build_base_blob_def r fst_conv snd_conv
    by (intro conjI) (rule n, rule s, rule d, rule f)
qed


theorem C9_composed_schema_diamond:
  "issubclass ex_D Entity
   \<and> fst ` set (b_fields (fst (build_base_blob ex_D))) =
       (\<Union>a \<in> entity_lineage ex_D. fst ` set (cls_fields a))
   \<and> distinct (snd (build_base_blob ex_D))
   \<and> map cls_name (snd (build_base_blob ex_D)) = [''Entity'', ''A'', ''B'', ''C'', ''D'']
   \<and> map fst (b_fields (fst (build_base_blob ex_D))) = [''version'', ''name'', ''weight'', ''stats'']"
proof -
  have sub: "issubclass ex_D Entity"
    by (simp add: ex_class_defs)
  have order: "map cls_name (snd (build_base_blob ex_D)) = [''Entity'', ''A'', ''B'', ''C'', ''D'']"
    by (simp add: ex_class_defs build_base_blob_def blob_update_def new_base_blob_def)
  have names: "map fst (b_fields (fst (build_base_blob ex_D))) = [''version'', ''name'', ''weight'', ''stats'']"
    by (simp add: ex_class_defs build_base_blob_def blob_update_def new_base_blob_def AList.merge_def)
  from C9_composed_schema [OF sub] sub order names show ?thesis by blast
qed

section \<open>Identity\<close>

lemma make_uid_fst:
  "fst (make_uid cls w) =
     VStr (c_uid_code cls @ ''-'' @ int_to_base_n (w_uid_timecode (snd (make_uid cls w))) uid_timecode_charset)"
  by (simp add: make_uid_def Let_def)

text \<open>The counter grows with every call, by one when the clock has not passed it.\<close>

lemma make_uid_timecode: "w_uid_timecode w < w_uid_timecode (snd (make_uid cls w))"
  by (simp add: make_uid_def Let_def)

lemma make_uid_clock_stalled:
  "w_time w * uid_timecode_multiplier \<le> w_uid_timecode w \<Longrightarrow>
   w_uid_timecode (snd (make_uid cls w)) = w_uid_timecode w + 1"
  by (simp add: make_uid_def Let_def)

lemma make_uid_clock_ahead:
  "w_uid_timecode w < w_time w * uid_timecode_multiplier \<Longrightarrow>
   w_uid_timecode (snd (make_uid cls w)) = w_time w * uid_timecode_multiplier"
  by (simp add: make_uid_def Let_def)

lemma render_10000:
  "int_to_base_n (100003 / 10) uid_timecode_charset = ''2zh''"
  "int_to_base_n (100007 / 10) uid_timecode_charset = ''2zh''"
  by (simp_all add: int_to_base_n_def uid_timecode_charset_def base_n_digits.simps)

text \<open>
  C1. The code breaks the claim. Two calls of \<open>make_uid\<close> within one tick of 100
  microseconds, the clock reading 1.00003 seconds and then 1.00007: each reading is ahead
  of the counter, so the counter takes the values 10000.3 and 10000.7, it advances by
  less than one, and both uids are rendered from the whole part 10000: they are equal.
\<close>

theorem C1_make_uid_repeats_within_a_tick:
  "w_uid_timecode (snd (make_uid ex_item (ex_world\<lparr> w_time := 100003 / 100000 \<rparr>))) = 100003 / 10
   \<and> w_uid_timecode (snd (make_uid ex_item
        ((snd (make_uid ex_item (ex_world\<lparr> w_time := 100003 / 100000 \<rparr>)))\<lparr> w_time := 100007 / 100000 \<rparr>)))
       = 100007 / 10
   \<and> fst (make_uid ex_item (ex_world\<lparr> w_time := 100003 / 100000 \<rparr>)) = VStr ''E-2zh''
   \<and> fst (make_uid ex_item
        ((snd (make_uid ex_item (ex_world\<lparr> w_time := 100003 / 100000 \<rparr>)))\<lparr> w_time := 100007 / 100000 \<rparr>))
       = VStr ''E-2zh''"
proof -
  let ?w = "ex_world\<lparr> w_time := 100003 / 100000 \<rparr>"
  have a: "w_uid_timecode (snd (make_uid ex_item ?w)) = 100003 / 10"
    by (simp add: make_uid_def Let_def ex_world_def uid_timecode_multiplier_def)
  let ?w1 = "(snd (make_uid ex_item ?w))\<lparr> w_time := 100007 / 100000 \<rparr>"
  have b: "w_uid_timecode (snd (make_uid ex_item ?w1)) = 100007 / 10"
    by (simp add: make_uid_def Let_def ex_world_def uid_timecode_multiplier_def)
  have c: "c_uid_code ex_item = ''E''" by (simp add: ex_item_def)
  show ?thesis
    unfolding make_uid_fst a b render_10000 c by simp
qed

section \<open>The example class and states\<close>

lemma ex_Item_blob:
  "fst (build_base_blob ex_Item) =
     \<lparr> b_fields = [(''name'', Attr ex_name_attr), (''version'', Attr EntityVersion)],
       b_values = [(''name'', VStr ''thing''), (''version'', VInt 1)] \<rparr>"
  by (simp add: ex_Item_def ex_class_defs build_base_blob_def blob_update_def new_base_blob_def
      AList.merge_def ex_name_attr_def EntityVersion_def)

lemma ex_sword_eq:
  "ex_sword = \<lparr> e_class = ''Item'',
      e_base_blob = \<lparr> b_fields = [(''name'', Attr ex_name_attr), (''version'', Attr EntityVersion)],
                       b_values = [(''name'', VStr ''thing''), (''version'', VInt 1)] \<rparr>,
      e_dirty = False, e_savable = True, e_uid = VStr ''E-1'',
      e_dict = [(''active'', VBool False)], e_flags = [], e_tags = [] \<rparr>"
  by (simp add: ex_sword_def new_entity_def ex_env_def ex_item_def ex_Item_blob)

lemma ex_sword_serialize:
  "serialize ex_sword = [(''name'', VStr ''thing''), (''version'', VInt 1), (''type'', VStr ''Item''),
     (''uid'', VStr ''E-1''), (''flags'', VTuple []), (''tags'', VDict [])]"
  by (simp add: serialize_def blob_serialize_def ex_sword_eq)

lemma ex_sword_deserialize:
  "deserialize (ex_sword\<lparr> e_dirty := True \<rparr>) (serialize ex_sword) = (Returned (), ex_sword\<lparr> e_dirty := True \<rparr>)"
  unfolding ex_sword_serialize unfolding ex_sword_eq
  by (simp add: deserialize_def deserialize_blob_def blob_deserialize_def Let_def flags_add_def
      AList.merge_def AList.restrict_eq AList.delete_eq)

lemma ex_world1_simps:
  "w_heap ex_world1 r = ex_sword" "w_stores ex_world1 s = [(VStr ''E-1'', Some (serialize ex_sword))]"
  "w_instances ex_world1 c = [(VStr ''E-1'', 0)]" "w_next ex_world1 = 1" "w_log ex_world1 = []"
  "w_caches ex_world1 c k = (if k = KeyName ''uid''
      then Some \<lparr> l_size = 512, l_items = [(VStr ''E-1'', 0)] \<rparr> else None)"
  by (simp_all add: ex_world1_def ex_world_def)

lemma ex_env_simps:
  "classes ex_env n = ex_item" "classes ex_env_transient n = ex_transient"
  "c_store ex_item = Some 0" "c_store ex_transient = None"
  "c_store_key ex_item = KeyName ''uid''" "c_store_key ex_transient = KeyName ''uid''"
  "registered ex_env = [''Item'']" "c_uid_code ex_item = ''E''" "c_pyclass ex_item = ex_Item"
  by (simp_all add: ex_env_def ex_env_transient_def ex_item_def ex_transient_def)

lemma ex_sword_fields:
  "e_uid ex_sword = VStr ''E-1''" "e_class ex_sword = ''Item''" "e_savable ex_sword"
  by (simp_all add: ex_sword_eq)

section \<open>Save\<close>

text \<open>
  C4 (amended). \<open>save\<close> on an entity whose class has no store raises nothing: it logs a
  warning and returns, and nothing else of the state changes.
\<close>

theorem C4_save_without_store_is_logged_noop:
  assumes "c_store (classes env (e_class (w_heap w r))) = None"
  shows "save env r w = (Returned (), w\<lparr> w_log := w_log w @ [WarnNonSavable (e_uid (w_heap w r))] \<rparr>)"
  using assms by (simp add: save_def is_savable_def Let_def)

theorem C4_save_without_store_example:
  "c_store (classes ex_env_transient (e_class (w_heap ex_world 0))) = None
   \<and> save ex_env_transient 0 ex_world = (Returned (), ex_world\<lparr> w_log := [WarnNonSavable VNone] \<rparr>)"
proof -
  have h: "c_store (classes ex_env_transient (e_class (w_heap ex_world 0))) = None"
    by (simp add: ex_env_transient_def ex_transient_def)
  from C4_save_without_store_is_logged_noop [OF h] h show ?thesis
    by (simp add: ex_world_def new_entity_def)
qed

theorem C4_save_without_store_does_not_raise:
  "\<not> (\<exists>err. fst (save ex_env_transient 0 ex_world) = Raised err)"
  by (simp add: save_def is_savable_def Let_def ex_env_transient_def ex_transient_def)

section \<open>Revert\<close>

lemma revert_no_store:
  "c_store (classes env (e_class (w_heap w r))) = None \<Longrightarrow> revert env r w = (Raised TypeError, w)"
  by (simp add: revert_def Let_def)

lemma revert_uid_mismatch:
  assumes "c_store (classes env (e_class (w_heap w r))) = Some sid"
    and "entity_key (classes env (e_class (w_heap w r))) (w_heap w r) = Returned k"
    and "store_get (w_stores w sid) k = Returned data"
    and "map_of data ''uid'' = Some u" and "u \<noteq> e_uid (w_heap w r)"
  shows "revert env r w = (Raised ValueError, w)"
  using assms by (auto simp: revert_def Let_def)

lemma revert_deserialized:
  assumes "c_store (classes env (e_class (w_heap w r))) = Some sid"
    and "entity_key (classes env (e_class (w_heap w r))) (w_heap w r) = Returned k"
    and "store_get (w_stores w sid) k = Returned data"
    and "map_of data ''uid'' = Some (e_uid (w_heap w r))"
    and "fst (deserialize (w_heap w r) data) = Returned ()"
  shows "revert env r w = (Returned (),
     w\<lparr> w_heap := (w_heap w)(r := (snd (deserialize (w_heap w r) data))\<lparr> e_dirty := False \<rparr>) \<rparr>)"
proof -
  obtain e1 where d: "deserialize (w_heap w r) data = (Returned (), e1)"
    using assms(5) by (cases "deserialize (w_heap w r) data") auto
  show ?thesis using assms(1-4) d by (simp add: revert_def Let_def)
qed

text \<open>What \<open>deserialize\<close> leaves of a record whose flags, when it has any, can be iterated
  and whose tags, when it has any, are a dict.\<close>

lemma deserialize_returns:
  assumes f: "\<And>fv. map_of data ''flags'' = Some fv \<Longrightarrow> py_iter fv \<noteq> None"
    and t: "\<And>tv. map_of data ''tags'' = Some tv \<Longrightarrow> \<exists>t. tv = VDict t"
  shows "fst (deserialize e data) = Returned ()"
    and "e_uid (snd (deserialize e data)) = (case map_of data ''uid'' of Some u \<Rightarrow> u | None \<Rightarrow> e_uid e)"
    and "e_flags (snd (deserialize e data))
          = (case map_of data ''flags'' of Some fv \<Rightarrow> flags_add (e_flags e) (the (py_iter fv))
                                         | None \<Rightarrow> e_flags e)"
    and "e_tags (snd (deserialize e data))
          = (case map_of data ''tags'' of Some (VDict t) \<Rightarrow> t | _ \<Rightarrow> e_tags e)"
    and "e_base_blob (snd (deserialize e data))
          = blob_deserialize (e_base_blob e)
              (AList.delete ''tags'' (AList.delete ''flags'' (AList.delete ''uid''
                 (AList.delete ''type'' data))))"
    and "e_class (snd (deserialize e data)) = e_class e"
    and "e_savable (snd (deserialize e data)) = e_savable e"
    and "e_dict (snd (deserialize e data)) = e_dict e"
proof -
  have fl: "map_of data ''flags'' = None \<or> (\<exists>fv vs. map_of data ''flags'' = Some fv \<and> py_iter fv = Some vs)"
    using f by (cases "map_of data ''flags''") auto
  have tg: "map_of data ''tags'' = None \<or> (\<exists>t. map_of data ''tags'' = Some (VDict t))"
    using t by (cases "map_of data ''tags''") auto
  show "fst (deserialize e data) = Returned ()"
    using fl tg by (auto simp: deserialize_def Let_def AList.delete_conv' split: option.splits)
  show "e_uid (snd (deserialize e data)) = (case map_of data ''uid'' of Some u \<Rightarrow> u | None \<Rightarrow> e_uid e)"
    using fl tg by (auto simp: deserialize_def deserialize_blob_def Let_def AList.delete_conv' split: option.splits)
  show "e_flags (snd (deserialize e data))
          = (case map_of data ''flags'' of Some fv \<Rightarrow> flags_add (e_flags e) (the (py_iter fv))
                                         | None \<Rightarrow> e_flags e)"
    using fl tg by (auto simp: deserialize_def deserialize_blob_def Let_def AList.delete_conv' split: option.splits)
  show "e_tags (snd (deserialize e data))
          = (case map_of data ''tags'' of Some (VDict t) \<Rightarrow> t | _ \<Rightarrow> e_tags e)"
    using fl tg by (auto simp: deserialize_def deserialize_blob_def Let_def AList.delete_conv' split: option.splits)
  show "e_base_blob (snd (deserialize e data))
          = blob_deserialize (e_base_blob e)
              (AList.delete ''tags'' (AList.delete ''flags'' (AList.delete ''uid''
                 (AList.delete ''type'' data))))"
    using fl tg by (auto simp: deserialize_def deserialize_blob_def Let_def AList.delete_conv' split: option.splits)
  show "e_class (snd (deserialize e data)) = e_class e"
    using fl tg by (auto simp: deserialize_def deserialize_blob_def Let_def AList.delete_conv' split: option.splits)
  show "e_savable (snd (deserialize e data)) = e_savable e"
    using fl tg by (auto simp: deserialize_def deserialize_blob_def Let_def AList.delete_conv' split: option.splits)
  show "e_dict (snd (deserialize e data)) = e_dict e"
    using fl tg by (auto simp: deserialize_def deserialize_blob_def Let_def AList.delete_conv' split: option.splits)
qed

lemma blob_deserialize_lookup:
  "map_of (b_values (blob_deserialize b d)) n =
     (if n \<in> fst ` set (b_fields b)
      then (case map_of d n of Some v \<Rightarrow> Some v | None \<Rightarrow> map_of (b_values b) n)
      else map_of (b_values b) n)"
  by (simp add: blob_deserialize_def AList.merge_conv' AList.restr_conv' map_add_def restrict_map_def)

lemma record_rest_lookup:
  "map_of (AList.delete ''tags'' (AList.delete ''flags'' (AList.delete ''uid''
      (AList.delete ''type'' data)))) n
    = (if n \<in> {''type'', ''uid'', ''flags'', ''tags''} then None else map_of data n)"
  by (simp add: AList.delete_conv')

lemma ex_worn_sword_eq:
  "ex_worn_sword = \<lparr> e_class = ''Item'',
      e_base_blob = \<lparr> b_fields = [(''name'', Attr ex_name_attr), (''version'', Attr EntityVersion)],
                       b_values = [(''name'', VStr ''sword''), (''version'', VInt 1)] \<rparr>,
      e_dirty = True, e_savable = True, e_uid = VStr ''E-1'',
      e_dict = [(''active'', VBool False)], e_flags = [VStr ''rusty''], e_tags = [] \<rparr>"
  by (simp add: ex_worn_sword_def ex_sword_eq)

lemma ex_world_axe_simps:
  "w_heap ex_world_axe r = ex_worn_sword" "w_stores ex_world_axe s = [(VStr ''E-1'', Some ex_axe_record)]"
  by (simp_all add: ex_world_axe_def ex_world1_def ex_world_def)


text \<open>
  C6. \<open>revert\<close> raises a \<open>TypeError\<close> when the class has no store and a \<open>ValueError\<close> when
  the uid of the stored record differs from the entity's, and in both cases the state is
  the one before the call. When the uids agree (and the record's flags can be iterated and
  its tags are a dict, so that \<open>deserialize\<close> returns), \<open>revert\<close> returns, nothing but the
  entity changes, and the entity has taken over the record: every field of its schema that
  the record gives a value has that value and every other field keeps its own, the tags
  are the record's, the flags of the record are added to its own, and the dirty flag is
  cleared.
\<close>

theorem C6_revert:
  assumes "e = w_heap w r" and "cls = classes env (e_class e)"
  shows "(c_store cls = None \<longrightarrow> revert env r w = (Raised TypeError, w))
   \<and> (c_store cls = Some sid \<and> entity_key cls e = Returned k
      \<and> store_get (w_stores w sid) k = Returned data \<and> map_of data ''uid'' = Some u \<longrightarrow>
        (u \<noteq> e_uid e \<longrightarrow> revert env r w = (Raised ValueError, w))
      \<and> (u = e_uid e
         \<and> (\<forall>fv. map_of data ''flags'' = Some fv \<longrightarrow> py_iter fv \<noteq> None)
         \<and> (\<forall>tv. map_of data ''tags'' = Some tv \<longrightarrow> (\<exists>t. tv = VDict t)) \<longrightarrow>
           (\<exists>e'. revert env r w = (Returned (), w\<lparr> w_heap := (w_heap w)(r := e') \<rparr>)
              \<and> \<not> e_dirty e'
              \<and> (\<forall>n. map_of (b_values (e_base_blob e')) n =
                     (if n \<in> fst ` set (b_fields (e_base_blob e))
                         \<and> n \<notin> {''type'', ''uid'', ''flags'', ''tags''}
                      then (case map_of data n of Some v \<Rightarrow> Some v
                                                | None \<Rightarrow> map_of (b_values (e_base_blob e)) n)
                      else map_of (b_values (e_base_blob e)) n))
              \<and> e_tags e' = (case map_of data ''tags'' of Some (VDict t) \<Rightarrow> t | _ \<Rightarrow> e_tags e)
              \<and> e_flags e' = (case map_of data ''flags'' of
                                Some fv \<Rightarrow> flags_add (e_flags e) (the (py_iter fv))
                              | None \<Rightarrow> e_flags e)
              \<and> e_uid e' = e_uid e \<and> e_class e' = e_class e \<and> e_savable e' = e_savable e
              \<and> e_dict e' = e_dict e
              \<and> b_fields (e_base_blob e') = b_fields (e_base_blob e))))"
proof (intro conjI impI)
  assume "c_store cls = None"
  then show "revert env r w = (Raised TypeError, w)"
    unfolding assms by (rule revert_no_store)
next
  assume a: "c_store cls = Some sid \<and> entity_key cls e = Returned k
      \<and> store_get (w_stores w sid) k = Returned data \<and> map_of data ''uid'' = Some u"
    and b: "u \<noteq> e_uid e"
  show "revert env r w = (Raised ValueError, w)"
    using a b unfolding assms by (intro revert_uid_mismatch[of env w r sid k data u]) simp_all
next
  assume a: "c_store cls = Some sid \<and> entity_key cls e = Returned k
      \<and> store_get (w_stores w sid) k = Returned data \<and> map_of data ''uid'' = Some u"
    and b: "u = e_uid e
         \<and> (\<forall>fv. map_of data ''flags'' = Some fv \<longrightarrow> py_iter fv \<noteq> None)
         \<and> (\<forall>tv. map_of data ''tags'' = Some tv \<longrightarrow> (\<exists>t. tv = VDict t))"
  have f: "\<And>fv. map_of data ''flags'' = Some fv \<Longrightarrow> py_iter fv \<noteq> None" using b by blast
  have t: "\<And>tv. map_of data ''tags'' = Some tv \<Longrightarrow> \<exists>t. tv = VDict t" using b by blast
  note d = deserialize_returns[OF f t, where e = e]
  let ?e' = "(snd (deserialize e data))\<lparr> e_dirty := False \<rparr>"
  have u: "map_of data ''uid'' = Some (e_uid e)" using a b by simp
  have r: "revert env r w = (Returned (), w\<lparr> w_heap := (w_heap w)(r := ?e') \<rparr>)"
    using a u d(1) unfolding assms by (intro revert_deserialized[of env w r sid k data]) simp_all
  have v: "\<forall>n. map_of (b_values (e_base_blob ?e')) n =
                     (if n \<in> fst ` set (b_fields (e_base_blob e))
                         \<and> n \<notin> {''type'', ''uid'', ''flags'', ''tags''}
                      then (case map_of data n of Some v \<Rightarrow> Some v
                                                | None \<Rightarrow> map_of (b_values (e_base_blob e)) n)
                      else map_of (b_values (e_base_blob e)) n)"
    by (simp add: d(5) blob_deserialize_lookup record_rest_lookup)
  have rest: "e_uid ?e' = e_uid e" "e_class ?e' = e_class e" "e_savable ?e' = e_savable e"
    "e_dict ?e' = e_dict e" "b_fields (e_base_blob ?e') = b_fields (e_base_blob e)"
    by (simp_all add: d u blob_deserialize_def)
  have tf: "e_tags ?e' = (case map_of data ''tags'' of Some (VDict t) \<Rightarrow> t | _ \<Rightarrow> e_tags e)"
    "e_flags ?e' = (case map_of data ''flags'' of
                                Some fv \<Rightarrow> flags_add (e_flags e) (the (py_iter fv))
                              | None \<Rightarrow> e_flags e)"
    by (simp_all add: d)
  have nd: "\<not> e_dirty ?e'" by simp
  show "\<exists>e'. revert env r w = (Returned (), w\<lparr> w_heap := (w_heap w)(r := e') \<rparr>)
              \<and> \<not> e_dirty e'
              \<and> (\<forall>n. map_of (b_values (e_base_blob e')) n =
                     (if n \<in> fst ` set (b_fields (e_base_blob e))
                         \<and> n \<notin> {''type'', ''uid'', ''flags'', ''tags''}
                      then (case map_of data n of Some v \<Rightarrow> Some v
                                                | None \<Rightarrow> map_of (b_values (e_base_blob e)) n)
                      else map_of (b_values (e_base_blob e)) n))
              \<and> e_tags e' = (case map_of data ''tags'' of Some (VDict t) \<Rightarrow> t | _ \<Rightarrow> e_tags e)
              \<and> e_flags e' = (case map_of data ''flags'' of
                                Some fv \<Rightarrow> flags_add (e_flags e) (the (py_iter fv))
                              | None \<Rightarrow> e_flags e)
              \<and> e_uid e' = e_uid e \<and> e_class e' = e_class e \<and> e_savable e' = e_savable e
              \<and> e_dict e' = e_dict e
              \<and> b_fields (e_base_blob e') = b_fields (e_base_blob e)"
    apply (rule exI[of _ ?e'])
    apply (intro conjI)
    apply (rule r)
    apply (rule nd)
    apply (rule v)
    apply (rule tf(1))
    apply (rule tf(2))
    apply (rule rest(1))
    apply (rule rest(2))
    apply (rule rest(3))
    apply (rule rest(4))
    apply (rule rest(5))
    done
qed

theorem C6_revert_examples:
  "revert ex_env_transient 0 ex_world_axe = (Raised TypeError, ex_world_axe)
   \<and> revert ex_env 0 (ex_world_axe\<lparr> w_stores := (\<lambda>s. [(VStr ''E-1'', Some [(''uid'', VStr ''E-2'')])]) \<rparr>)
       = (Raised ValueError,
          ex_world_axe\<lparr> w_stores := (\<lambda>s. [(VStr ''E-1'', Some [(''uid'', VStr ''E-2'')])]) \<rparr>)
   \<and> map_of (b_values (e_base_blob (w_heap ex_world_axe 0))) ''name'' = Some (VStr ''sword'')
   \<and> e_dirty (w_heap ex_world_axe 0)
   \<and> store_get (w_stores ex_world_axe 0) (VStr ''E-1'') = Returned ex_axe_record
   \<and> map_of ex_axe_record ''name'' = Some (VStr ''axe'')
   \<and> fst (revert ex_env 0 ex_world_axe) = Returned ()
   \<and> map_of (b_values (e_base_blob (w_heap (snd (revert ex_env 0 ex_world_axe)) 0))) ''name''
       = Some (VStr ''axe'')
   \<and> map_of (b_values (e_base_blob (w_heap (snd (revert ex_env 0 ex_world_axe)) 0))) ''version''
       = Some (VInt 1)
   \<and> e_tags (w_heap (snd (revert ex_env 0 ex_world_axe)) 0) = [(''owner'', VStr ''smith'')]
   \<and> e_flags (w_heap (snd (revert ex_env 0 ex_world_axe)) 0) = [VStr ''rusty'', VStr ''sharp'']
   \<and> \<not> e_dirty (w_heap (snd (revert ex_env 0 ex_world_axe)) 0)"
proof -
  let ?wm = "ex_world_axe\<lparr> w_stores := (\<lambda>s. [(VStr ''E-1'', Some [(''uid'', VStr ''E-2'')])]) \<rparr>"
  have 1: "revert ex_env_transient 0 ex_world_axe = (Raised TypeError, ex_world_axe)"
    using C6_revert [OF refl refl, where w = ex_world_axe and r = 0 and env = ex_env_transient]
    by (simp add: ex_world_axe_simps ex_env_simps ex_worn_sword_eq)
  have 2: "revert ex_env 0 ?wm = (Raised ValueError, ?wm)"
    using C6_revert [OF refl refl, where w = ?wm and r = 0 and env = ex_env and sid = 0
        and k = "VStr ''E-1''" and data = "[(''uid'', VStr ''E-2'')]" and u = "VStr ''E-2''"]
    by (simp add: ex_world_axe_simps ex_env_simps ex_worn_sword_eq entity_key_def getattr_def store_get_def)
  have h: "c_store (classes ex_env (e_class (w_heap ex_world_axe 0))) = Some 0
      \<and> entity_key (classes ex_env (e_class (w_heap ex_world_axe 0))) (w_heap ex_world_axe 0)
          = Returned (VStr ''E-1'')
      \<and> store_get (w_stores ex_world_axe 0) (VStr ''E-1'') = Returned ex_axe_record
      \<and> map_of ex_axe_record ''uid'' = Some (VStr ''E-1'')"
    by (simp add: ex_world_axe_simps ex_env_simps entity_key_def getattr_def store_get_def
        ex_worn_sword_eq ex_axe_record_def)
  have h2: "VStr ''E-1'' = e_uid (w_heap ex_world_axe 0)
      \<and> (\<forall>fv. map_of ex_axe_record ''flags'' = Some fv \<longrightarrow> py_iter fv \<noteq> None)
      \<and> (\<forall>tv. map_of ex_axe_record ''tags'' = Some tv \<longrightarrow> (\<exists>t. tv = VDict t))"
    by (simp add: ex_world_axe_simps ex_worn_sword_eq ex_axe_record_def)
  note 3 = C6_revert [OF refl refl, where w = ex_world_axe and r = 0 and env = ex_env and sid = 0
        and k = "VStr ''E-1''" and data = ex_axe_record and u = "VStr ''E-1''",
        THEN conjunct2, THEN mp, OF h, THEN conjunct2, THEN mp, OF h2]
  then obtain e' where r: "revert ex_env 0 ex_world_axe
        = (Returned (), ex_world_axe\<lparr> w_heap := (w_heap ex_world_axe)(0 := e') \<rparr>)"
    and nd: "\<not> e_dirty e'"
    and v: "\<And>n. map_of (b_values (e_base_blob e')) n =
               (if n \<in> fst ` set (b_fields (e_base_blob (w_heap ex_world_axe 0)))
                   \<and> n \<notin> {''type'', ''uid'', ''flags'', ''tags''}
                then (case map_of ex_axe_record n of Some v \<Rightarrow> Some v
                        | None \<Rightarrow> map_of (b_values (e_base_blob (w_heap ex_world_axe 0))) n)
                else map_of (b_values (e_base_blob (w_heap ex_world_axe 0))) n)"
    and t: "e_tags e' = (case map_of ex_axe_record ''tags'' of Some (VDict t) \<Rightarrow> t
                          | _ \<Rightarrow> e_tags (w_heap ex_world_axe 0))"
    and f: "e_flags e' = (case map_of ex_axe_record ''flags'' of
                            Some fv \<Rightarrow> flags_add (e_flags (w_heap ex_world_axe 0)) (the (py_iter fv))
                          | None \<Rightarrow> e_flags (w_heap ex_world_axe 0))"
    by blast
  have a: "map_of (b_values (e_base_blob e')) ''name'' = Some (VStr ''axe'')"
    unfolding v by (simp add: ex_world_axe_simps ex_worn_sword_eq ex_axe_record_def)
  have b: "map_of (b_values (e_base_blob e')) ''version'' = Some (VInt 1)"
    unfolding v by (simp add: ex_world_axe_simps ex_worn_sword_eq ex_axe_record_def)
  have c: "e_tags e' = [(''owner'', VStr ''smith'')]"
    unfolding t by (simp add: ex_axe_record_def)
  have d: "e_flags e' = [VStr ''rusty'', VStr ''sharp'']"
    unfolding f by (simp add: ex_axe_record_def ex_world_axe_simps ex_worn_sword_eq flags_add_def)
  have pre: "map_of (b_values (e_base_blob (w_heap ex_world_axe 0))) ''name'' = Some (VStr ''sword'')"
    "e_dirty (w_heap ex_world_axe 0)" "map_of ex_axe_record ''name'' = Some (VStr ''axe'')"
    by (simp_all add: ex_world_axe_simps ex_worn_sword_eq ex_axe_record_def)
  show ?thesis using 1 2 h pre a b c d nd by (simp add: r)
qed

section \<open>Eviction\<close>

lemma save_not_savable:
  assumes "\<not> is_savable (classes env (e_class (w_heap w r))) (w_heap w r)"
  shows "save env r w = (Returned (), w\<lparr> w_log := w_log w @ [WarnNonSavable (e_uid (w_heap w r))] \<rparr>)"
  using assms by (simp add: save_def Let_def)

lemma save_savable:
  assumes "is_savable (classes env (e_class (w_heap w r))) (w_heap w r)"
    and "c_store (classes env (e_class (w_heap w r))) = Some sid"
    and "map_of (e_tags (w_heap w r)) ''_old_key'' = None"
    and "entity_key (classes env (e_class (w_heap w r))) (w_heap w r) = Returned ek"
  shows "save env r w = (Returned (),
     w\<lparr> w_heap := (w_heap w)(r := (w_heap w r)\<lparr> e_dirty := False \<rparr>),
        w_stores := (w_stores w)(sid := store_put (w_stores w sid) ek (serialize (w_heap w r))) \<rparr>)"
  using assms by (simp add: save_def Let_def)

lemma lru_victim_SomeD:
  assumes "lru_victim c k = Some v"
  shows "\<not> lru_contains c k" "\<not> length (l_items c) < l_size c" "l_items c \<noteq> []" "v = last (l_items c)"
  using assms by (auto simp: lru_victim_def split: if_splits list.splits)

lemma last_key_not_in_butlast:
  assumes "distinct (map fst xs)" "xs \<noteq> []"
  shows "fst (last xs) \<notin> fst ` set (butlast xs)"
proof -
  have "xs = butlast xs @ [last xs]" using assms(2) by simp
  then have "distinct (map fst (butlast xs @ [last xs]))" using assms(1) by simp
  then show ?thesis by (simp add: image_iff) 
qed

lemma cache_set_victim:
  assumes "lru_victim c k = Some (vk, vr)"
  shows "cache_set env cname kn c k r w =
     (case save env vr w of
        (Raised err, w1) \<Rightarrow> (Raised err, w1)
      | (Returned u, w1) \<Rightarrow>
          (Returned (),
           w1\<lparr> w_caches := (w_caches w1)(cname := (w_caches w1 cname)(kn := Some (lru_insert c k r))) \<rparr>))"
  using assms by (simp add: cache_set_def cache_eject_callback_def)

lemma lru_insert_evicts:
  assumes v: "lru_victim c k = Some (vk, vr)" and d: "distinct (map fst (l_items c))"
  shows "(vk, vr) \<in> set (l_items c)" "\<not> lru_contains (lru_insert c k r) vk"
    "lru_contains (lru_insert c k r) k"
proof -
  note v' = lru_victim_SomeD[OF v]
  show "(vk, vr) \<in> set (l_items c)" using v'(3,4) by simp
  have ins: "l_items (lru_insert c k r) = (k, r) # butlast (l_items c)"
    using v'(1,2) by (simp add: lru_insert_def)
  have vk: "vk = fst (last (l_items c))" using v'(4) by (metis fst_conv)
  have "vk \<in> fst ` set (l_items c)" unfolding vk using v'(3) by simp
  then have ne: "vk \<noteq> k" using v'(1) by (auto simp: lru_contains_def)
  have nb: "vk \<notin> fst ` set (butlast (l_items c))"
    unfolding vk using d v'(3) by (rule last_key_not_in_butlast)
  show "\<not> lru_contains (lru_insert c k r) vk"
    using ne nb by (simp add: lru_contains_def ins)
  show "lru_contains (lru_insert c k r) k" by (simp add: lru_contains_def ins)
qed

text \<open>
  C7. When setting a key in a cache evicts an entry, the assignment goes through \<open>save\<close>
  of the evicted entity: its result is the one \<open>save\<close> leaves, with the cache updated when
  \<open>save\<close> returns. When the entity is not savable the assignment returns without raising,
  and the state it leaves is the one before with the warning added to the log and the
  cache updated, in which the evicted key is gone and the new one is there. When the
  entity is savable (and carries no old key), its record is in the store afterwards and
  its dirty flag is cleared.
\<close>

theorem C7_eviction_invokes_save:
  assumes "lru_victim c k = Some (vk, vr)"
    and "distinct (map fst (l_items c))"
    and "e = w_heap w vr" and "cls = classes env (e_class e)"
    and "caches' = (w_caches w)(cname := (w_caches w cname)(kn := Some (lru_insert c k r)))"
  shows "cache_set env cname kn c k r w =
       (case save env vr w of
          (Raised err, w1) \<Rightarrow> (Raised err, w1)
        | (Returned u, w1) \<Rightarrow>
            (Returned (),
             w1\<lparr> w_caches := (w_caches w1)(cname := (w_caches w1 cname)(kn := Some (lru_insert c k r))) \<rparr>))
    \<and> (vk, vr) \<in> set (l_items c)
    \<and> \<not> lru_contains (lru_insert c k r) vk
    \<and> lru_contains (lru_insert c k r) k
    \<and> (\<not> is_savable cls e \<longrightarrow>
         cache_set env cname kn c k r w =
           (Returned (), w\<lparr> w_log := w_log w @ [WarnNonSavable (e_uid e)], w_caches := caches' \<rparr>))
    \<and> (is_savable cls e \<and> c_store cls = Some sid \<and> map_of (e_tags e) ''_old_key'' = None
        \<and> entity_key cls e = Returned ek \<longrightarrow>
         cache_set env cname kn c k r w =
           (Returned (),
            w\<lparr> w_heap := (w_heap w)(vr := e\<lparr> e_dirty := False \<rparr>),
               w_stores := (w_stores w)(sid := store_put (w_stores w sid) ek (serialize e)),
               w_caches := caches' \<rparr>))"
proof (intro conjI impI)
  show "cache_set env cname kn c k r w =
       (case save env vr w of
          (Raised err, w1) \<Rightarrow> (Raised err, w1)
        | (Returned u, w1) \<Rightarrow>
            (Returned (),
             w1\<lparr> w_caches := (w_caches w1)(cname := (w_caches w1 cname)(kn := Some (lru_insert c k r))) \<rparr>))"
    using assms(1) by (rule cache_set_victim)
  show "(vk, vr) \<in> set (l_items c)" "\<not> lru_contains (lru_insert c k r) vk"
    "lru_contains (lru_insert c k r) k"
    using assms(1,2) by (rule lru_insert_evicts)+
next
  assume "\<not> is_savable cls e"
  then have "save env vr w = (Returned (), w\<lparr> w_log := w_log w @ [WarnNonSavable (e_uid e)] \<rparr>)"
    unfolding assms(3,4) by (rule save_not_savable)
  then show "cache_set env cname kn c k r w =
           (Returned (), w\<lparr> w_log := w_log w @ [WarnNonSavable (e_uid e)], w_caches := caches' \<rparr>)"
    by (simp add: cache_set_victim[OF assms(1)] assms(5))
next
  assume a: "is_savable cls e \<and> c_store cls = Some sid \<and> map_of (e_tags e) ''_old_key'' = None
        \<and> entity_key cls e = Returned ek"
  have "save env vr w = (Returned (),
     w\<lparr> w_heap := (w_heap w)(vr := e\<lparr> e_dirty := False \<rparr>),
        w_stores := (w_stores w)(sid := store_put (w_stores w sid) ek (serialize e)) \<rparr>)"
    using a unfolding assms(3,4) by (intro save_savable) simp_all
  then show "cache_set env cname kn c k r w =
           (Returned (),
            w\<lparr> w_heap := (w_heap w)(vr := e\<lparr> e_dirty := False \<rparr>),
               w_stores := (w_stores w)(sid := store_put (w_stores w sid) ek (serialize e)),
               w_caches := caches' \<rparr>)"
    by (simp add: cache_set_victim[OF assms(1)] assms(5))
qed

theorem C7_eviction_examples:
  "lru_victim \<lparr> l_size = 1, l_items = [(VStr ''E-1'', 0)] \<rparr> (VStr ''E-2'') = Some (VStr ''E-1'', 0)
   \<and> \<not> is_savable (classes ex_env_transient (e_class (w_heap ex_world1 0))) (w_heap ex_world1 0)
   \<and> cache_set ex_env_transient ''Item'' (KeyName ''uid'')
        \<lparr> l_size = 1, l_items = [(VStr ''E-1'', 0)] \<rparr> (VStr ''E-2'') 1 ex_world1
       = (Returned (),
          ex_world1\<lparr> w_log := [WarnNonSavable (VStr ''E-1'')],
            w_caches := (w_caches ex_world1)(''Item'' := (w_caches ex_world1 ''Item'')
               (KeyName ''uid'' := Some \<lparr> l_size = 1, l_items = [(VStr ''E-2'', 1)] \<rparr>)) \<rparr>)
   \<and> is_savable (classes ex_env (e_class (w_heap ex_world_axe 0))) (w_heap ex_world_axe 0)
   \<and> e_dirty (w_heap ex_world_axe 0)
   \<and> w_stores ex_world_axe 0 = [(VStr ''E-1'', Some ex_axe_record)]
   \<and> cache_set ex_env ''Item'' (KeyName ''uid'')
        \<lparr> l_size = 1, l_items = [(VStr ''E-1'', 0)] \<rparr> (VStr ''E-2'') 1 ex_world_axe
       = (Returned (),
          ex_world_axe\<lparr> w_heap := (w_heap ex_world_axe)(0 := ex_worn_sword\<lparr> e_dirty := False \<rparr>),
            w_stores := (w_stores ex_world_axe)(0 := [(VStr ''E-1'', Some (serialize ex_worn_sword))]),
            w_caches := (w_caches ex_world_axe)(''Item'' := (w_caches ex_world_axe ''Item'')
               (KeyName ''uid'' := Some \<lparr> l_size = 1, l_items = [(VStr ''E-2'', 1)] \<rparr>)) \<rparr>)"
proof -
  let ?c = "\<lparr> l_size = 1, l_items = [(VStr ''E-1'', 0)] \<rparr>"
  have a: "lru_victim ?c (VStr ''E-2'') = Some (VStr ''E-1'', 0)"
    by (simp add: lru_victim_def lru_contains_def)
  have d: "distinct (map fst (l_items ?c))" by simp
  have i: "lru_insert ?c (VStr ''E-2'') 1 = \<lparr> l_size = 1, l_items = [(VStr ''E-2'', 1)] \<rparr>"
    by (simp add: lru_insert_def lru_contains_def)
  have b: "\<not> is_savable (classes ex_env_transient (e_class (w_heap ex_world1 0))) (w_heap ex_world1 0)"
    by (simp add: is_savable_def ex_env_simps)
  have s: "is_savable (classes ex_env (e_class (w_heap ex_world_axe 0))) (w_heap ex_world_axe 0)
      \<and> c_store (classes ex_env (e_class (w_heap ex_world_axe 0))) = Some 0
      \<and> map_of (e_tags (w_heap ex_world_axe 0)) ''_old_key'' = None
      \<and> entity_key (classes ex_env (e_class (w_heap ex_world_axe 0))) (w_heap ex_world_axe 0)
          = Returned (VStr ''E-1'')"
    by (simp add: is_savable_def ex_env_simps ex_world_axe_simps ex_worn_sword_eq entity_key_def
        getattr_def)
  note 1 = C7_eviction_invokes_save [OF a d refl refl refl, where w = ex_world1
      and env = ex_env_transient and cname = "''Item''" and kn = "KeyName ''uid''" and r = 1,
      THEN conjunct2, THEN conjunct2, THEN conjunct2, THEN conjunct2, THEN conjunct1, THEN mp, OF b]
  note 2 = C7_eviction_invokes_save [OF a d refl refl refl, where w = ex_world_axe
      and env = ex_env and cname = "''Item''" and kn = "KeyName ''uid''" and r = 1
      and sid = 0 and ek = "VStr ''E-1''",
      THEN conjunct2, THEN conjunct2, THEN conjunct2, THEN conjunct2, THEN conjunct2, THEN mp, OF s]
  have p: "e_dirty (w_heap ex_world_axe 0)" "w_stores ex_world_axe 0 = [(VStr ''E-1'', Some ex_axe_record)]"
    by (simp_all add: ex_world_axe_simps ex_worn_sword_eq)
  have st: "store_put (w_stores ex_world_axe 0) (VStr ''E-1'') (serialize ex_worn_sword)
      = [(VStr ''E-1'', Some (serialize ex_worn_sword))]"
    by (simp add: store_put_def ex_world_axe_simps)
  have c1: "cache_set ex_env_transient ''Item'' (KeyName ''uid'') ?c (VStr ''E-2'') 1 ex_world1
       = (Returned (),
          ex_world1\<lparr> w_log := [WarnNonSavable (VStr ''E-1'')],
            w_caches := (w_caches ex_world1)(''Item'' := (w_caches ex_world1 ''Item'')
               (KeyName ''uid'' := Some \<lparr> l_size = 1, l_items = [(VStr ''E-2'', 1)] \<rparr>)) \<rparr>)"
    using 1[unfolded i] by (simp add: ex_world1_simps ex_sword_fields)
  have c2: "cache_set ex_env ''Item'' (KeyName ''uid'') ?c (VStr ''E-2'') 1 ex_world_axe
       = (Returned (),
          ex_world_axe\<lparr> w_heap := (w_heap ex_world_axe)(0 := ex_worn_sword\<lparr> e_dirty := False \<rparr>),
            w_stores := (w_stores ex_world_axe)(0 := [(VStr ''E-1'', Some (serialize ex_worn_sword))]),
            w_caches := (w_caches ex_world_axe)(''Item'' := (w_caches ex_world_axe ''Item'')
               (KeyName ''uid'' := Some \<lparr> l_size = 1, l_items = [(VStr ''E-2'', 1)] \<rparr>)) \<rparr>)"
    using 2[unfolded i st] by (simp add: ex_world_axe_simps store_put_def)
  from a b s p c1 c2 show ?thesis by simp
qed

section \<open>Delete and exists\<close>

lemma store_has_delete: "\<not> store_has (store_delete st k) k"
  by (simp add: store_has_def store_delete_def AList.delete_conv')

lemma lru_contains_delete: "\<not> lru_contains (lru_delete c k) k"
  by (simp add: lru_contains_def lru_delete_def delete_notin_dom)

text \<open>The cache step of \<open>delete\<close> and the store step, each on its own.\<close>

lemma delete_result:
  assumes "entity_key (classes env (e_class (w_heap w r))) (w_heap w r) = Returned k"
  shows "delete env r w =
    (Returned (),
     w\<lparr> w_caches :=
          (case w_caches w (e_class (w_heap w r)) (get_key_name (classes env (e_class (w_heap w r)))) of
             None \<Rightarrow> w_caches w
           | Some c \<Rightarrow>
               if l_items c \<noteq> [] \<and> lru_contains c k
               then (w_caches w)(e_class (w_heap w r) :=
                      (w_caches w (e_class (w_heap w r)))
                        (get_key_name (classes env (e_class (w_heap w r))) := Some (lru_delete c k)))
               else w_caches w),
        w_stores :=
          (case c_store (classes env (e_class (w_heap w r))) of
             None \<Rightarrow> w_stores w
           | Some sid \<Rightarrow>
               if store_has (w_stores w sid) k
               then (w_stores w)(sid := store_delete (w_stores w sid) k)
               else w_stores w) \<rparr>)"
  using assms by (simp add: delete_def Let_def split: option.split)

lemma lru_contains_empty: "l_items c = [] \<Longrightarrow> \<not> lru_contains c k"
  by (simp add: lru_contains_def)

text \<open>
  C3 (amended). When \<open>x.delete()\<close> has run, the store of the class has no record under
  the key of \<open>x\<close> and the cache of the class has no entry under it; the instance registry
  and the entity objects are untouched. For a class keyed by uid whose registry holds
  \<open>x\<close> under that key, \<open>exists\<close> with the key therefore still returns \<open>True\<close>.
\<close>

theorem C3_delete_then_exists:
  assumes "entity_key (classes env (e_class (w_heap w r))) (w_heap w r) = Returned k"
  shows "fst (delete env r w) = Returned ()
    \<and> (\<forall>sid. c_store (classes env (e_class (w_heap w r))) = Some sid \<longrightarrow>
          \<not> store_has (w_stores (snd (delete env r w)) sid) k)
    \<and> (\<forall>c. w_caches (snd (delete env r w)) (e_class (w_heap w r))
               (get_key_name (classes env (e_class (w_heap w r)))) = Some c \<longrightarrow>
          \<not> lru_contains c k)
    \<and> w_instances (snd (delete env r w)) = w_instances w
    \<and> w_heap (snd (delete env r w)) = w_heap w
    \<and> (get_key_name (classes env (e_class (w_heap w r))) = KeyName ''uid''
        \<and> k \<in> fst ` set (w_instances w (e_class (w_heap w r))) \<longrightarrow>
          exists env (e_class (w_heap w r)) k (snd (delete env r w)) = Returned True)"
proof -
  note d = delete_result[OF assms]
  have 1: "fst (delete env r w) = Returned ()" by (simp add: d)
  have 2: "\<forall>sid. c_store (classes env (e_class (w_heap w r))) = Some sid \<longrightarrow>
          \<not> store_has (w_stores (snd (delete env r w)) sid) k"
    by (simp add: d store_has_delete)
  have 3: "\<forall>c. w_caches (snd (delete env r w)) (e_class (w_heap w r))
               (get_key_name (classes env (e_class (w_heap w r)))) = Some c \<longrightarrow>
          \<not> lru_contains c k"
    by (auto simp: d lru_contains_delete lru_contains_empty split: option.splits if_splits)
  have 4: "w_instances (snd (delete env r w)) = w_instances w" by (simp add: d)
  have 5: "w_heap (snd (delete env r w)) = w_heap w" by (simp add: d)
  have 6: "get_key_name (classes env (e_class (w_heap w r))) = KeyName ''uid''
        \<and> k \<in> fst ` set (w_instances w (e_class (w_heap w r))) \<longrightarrow>
          exists env (e_class (w_heap w r)) k (snd (delete env r w)) = Returned True"
    using 4 by (simp add: exists_def Let_def)
  show ?thesis using 1 2 3 4 5 6 by (intro conjI)
qed

theorem C3_delete_then_exists_example:
  "entity_key (classes ex_env (e_class (w_heap ex_world1 0))) (w_heap ex_world1 0) = Returned (VStr ''E-1'')
   \<and> store_has (w_stores ex_world1 0) (VStr ''E-1'')
   \<and> fst (delete ex_env 0 ex_world1) = Returned ()
   \<and> \<not> store_has (w_stores (snd (delete ex_env 0 ex_world1)) 0) (VStr ''E-1'')
   \<and> exists ex_env ''Item'' (VStr ''E-1'') (snd (delete ex_env 0 ex_world1)) = Returned True"
proof -
  have k: "entity_key (classes ex_env (e_class (w_heap ex_world1 0))) (w_heap ex_world1 0) = Returned (VStr ''E-1'')"
    by (simp add: entity_key_def getattr_def ex_world1_simps ex_env_simps ex_sword_fields)
  have h: "store_has (w_stores ex_world1 0) (VStr ''E-1'')"
    by (simp add: store_has_def ex_world1_simps)
  have c: "e_class (w_heap ex_world1 0) = ''Item''" "c_store (classes ex_env ''Item'') = Some 0"
    "get_key_name (classes ex_env ''Item'') = KeyName ''uid''"
    "VStr ''E-1'' \<in> fst ` set (w_instances ex_world1 ''Item'')"
    by (simp_all add: ex_world1_simps ex_env_simps ex_sword_fields get_key_name_def)
  from C3_delete_then_exists [OF k] k h c show ?thesis by simp
qed

theorem C3_exists_after_delete_is_true:
  "exists ex_env ''Item'' (VStr ''E-1'') (snd (delete ex_env 0 ex_world1)) \<noteq> Returned False"
proof -
  have k: "entity_key (classes ex_env (e_class (w_heap ex_world1 0))) (w_heap ex_world1 0) = Returned (VStr ''E-1'')"
    by (simp add: entity_key_def getattr_def ex_world1_simps ex_env_simps ex_sword_fields)
  have "exists ex_env ''Item'' (VStr ''E-1'') (snd (delete ex_env 0 ex_world1)) = Returned True"
    unfolding delete_result[OF k]
    by (simp add: exists_def Let_def ex_world1_simps ex_env_simps ex_sword_fields get_key_name_def)
  then show ?thesis by simp
qed

section \<open>Find\<close>

text \<open>
  C10 (amended). On a class with no store, \<open>find\<close> with \<open>store=True\<close> raises the
  \<open>AttributeError\<close> of \<open>None.keys()\<close> exactly when the scan of the store is reached: the
  arguments split into pairs, the scan of the registry (if asked for) ends without an
  error, and it has found fewer than \<open>n\<close> entities or \<open>n\<close> is 0. When the registry scan
  has already found \<open>n\<close> entities, \<open>find\<close> returns them and the store is not touched.
\<close>

theorem C10_find_without_store:
  assumes "c_store (classes env cname) = None"
    and "parse_pairs args = Returned pairs"
    and "(if cache then find_in_cache (classes env cname) (w_heap w) pairs match n
                     (map snd (w_instances w cname)) ([], [])
          else Returned ([], [])) = Returned (found, checked)"
  shows "(n = 0 \<or> int (length found) < n \<longrightarrow>
            find_entities env cname args cache True match n w = (Raised AttributeError, w))
       \<and> (\<not> (n = 0 \<or> int (length found) < n) \<longrightarrow>
            find_entities env cname args cache True match n w =
              (Returned (if n = 1 then One (case found of [] \<Rightarrow> None | x # xs \<Rightarrow> Some x)
                         else Many found), w))"
  using assms by (simp add: find_entities_def Let_def)

theorem C10_find_without_store_example:
  "find_entities ex_env_transient ''Item'' [] True True py_all 0 ex_world1 = (Raised AttributeError, ex_world1)
   \<and> find_entities ex_env_transient ''Item'' [] True True py_all 1 ex_world1 = (Returned (One (Some 0)), ex_world1)"
proof -
  have s: "c_store (classes ex_env_transient ''Item'') = None" by (simp add: ex_env_simps)
  have p: "parse_pairs [] = Returned []" by simp
  have c0: "(if True then find_in_cache (classes ex_env_transient ''Item'') (w_heap ex_world1) [] py_all 0
                     (map snd (w_instances ex_world1 ''Item'')) ([], [])
          else Returned ([], [])) = Returned ([0], [VStr ''E-1''])"
    by (simp add: ex_world1_simps ex_env_simps py_all_def set_add_def entity_key_def getattr_def ex_sword_fields)
  have c1: "(if True then find_in_cache (classes ex_env_transient ''Item'') (w_heap ex_world1) [] py_all 1
                     (map snd (w_instances ex_world1 ''Item'')) ([], [])
          else Returned ([], [])) = Returned ([0], [])"
    by (simp add: ex_world1_simps ex_env_simps py_all_def set_add_def)
  from C10_find_without_store [OF s p c0] C10_find_without_store [OF s p c1]
  show ?thesis by simp
qed

theorem C10_find_without_store_returns:
  "\<not> (\<exists>err. fst (find_entities ex_env_transient ''Item'' [] True True py_all 1 ex_world1) = Raised err)"
  by (simp add: find_entities_def Let_def ex_world1_simps ex_env_simps py_all_def set_add_def)

section \<open>Serialize and deserialize\<close>

lemma set_flags_add: "set (flags_add acc fs) = set acc \<union> set fs"
  unfolding flags_add_def by (induction fs arbitrary: acc) auto

lemma map_of_serialize:
  "map_of (serialize e) =
     (map_of (b_values (e_base_blob e)))(''type'' \<mapsto> VStr (e_class e), ''uid'' \<mapsto> e_uid e,
        ''flags'' \<mapsto> VTuple (e_flags e), ''tags'' \<mapsto> VDict (e_tags e))"
  by (simp add: serialize_def blob_serialize_def AList.update_conv')

lemma serialize_lookups:
  "map_of (AList.delete ''type'' (serialize e)) ''uid'' = Some (e_uid e)"
  "map_of (AList.delete ''uid'' (AList.delete ''type'' (serialize e))) ''flags'' = Some (VTuple (e_flags e))"
  "map_of (AList.delete ''flags'' (AList.delete ''uid'' (AList.delete ''type'' (serialize e)))) ''tags''
     = Some (VDict (e_tags e))"
  by (simp_all add: AList.delete_conv' map_of_serialize)

lemma serialize_rest:
  "map_of (AList.delete ''tags'' (AList.delete ''flags'' (AList.delete ''uid''
      (AList.delete ''type'' (serialize e))))) n =
   (if n \<in> {''type'', ''uid'', ''flags'', ''tags''} then None else map_of (b_values (e_base_blob e)) n)"
  by (simp add: AList.delete_conv' map_of_serialize)

lemma deserialize_serialize:
  "deserialize y (serialize x) =
    (Returned (),
     deserialize_blob (y\<lparr> e_uid := e_uid x, e_flags := flags_add (e_flags y) (e_flags x),
                          e_dirty := True, e_tags := e_tags x, e_dirty := True \<rparr>)
       (AList.delete ''tags'' (AList.delete ''flags'' (AList.delete ''uid''
          (AList.delete ''type'' (serialize x))))))"
  by (simp add: deserialize_def Let_def AList.delete_conv' map_of_serialize)

lemma blob_values_after:
  assumes same: "b_fields (e_base_blob y) = b_fields (e_base_blob x)"
    and wfx: "fst ` set (b_values (e_base_blob x)) = fst ` set (b_fields (e_base_blob x))"
    and wfy: "fst ` set (b_values (e_base_blob y)) = fst ` set (b_fields (e_base_blob y))"
    and reserved: "{''type'', ''uid'', ''flags'', ''tags''} \<inter> fst ` set (b_fields (e_base_blob x)) = {}"
  shows "map_of (b_values (blob_deserialize (e_base_blob y)
           (AList.delete ''tags'' (AList.delete ''flags'' (AList.delete ''uid''
              (AList.delete ''type'' (serialize x))))))) n
         = map_of (b_values (e_base_blob x)) n"
proof (cases "n \<in> fst ` set (b_fields (e_base_blob x))")
  case True
  then have nr: "n \<notin> {''type'', ''uid'', ''flags'', ''tags''}" using reserved by blast
  from True wfx have "n \<in> fst ` set (b_values (e_base_blob x))" by simp
  then obtain v where v: "map_of (b_values (e_base_blob x)) n = Some v"
    by (metis domD dom_map_of_conv_image_fst)
  show ?thesis using True nr v
    by (simp add: blob_deserialize_def merge_conv' restr_conv' same serialize_rest map_add_def restrict_map_def)
next
  case False
  then have a: "map_of (b_values (e_base_blob x)) n = None"
    using wfx by (simp add: map_of_eq_None_iff)
  from False have b: "map_of (b_values (e_base_blob y)) n = None"
    using wfy same by (simp add: map_of_eq_None_iff)
  show ?thesis using False a b
    by (simp add: blob_deserialize_def merge_conv' restr_conv' same map_add_def restrict_map_def)
qed

text \<open>
  C2. Deserializing the serialized form of an entity \<open>x\<close> into a fresh entity \<open>y\<close> of the
  same class (the same fields, no flags yet) returns without an error and leaves \<open>y\<close> with
  the uid, the field values, the flags and the tags of \<open>x\<close>. The names \<open>type\<close>, \<open>uid\<close>,
  \<open>flags\<close> and \<open>tags\<close> are not field names: \<open>register_attr\<close> refuses them.
\<close>

theorem C2_deserialize_serialize_roundtrip:
  assumes "b_fields (e_base_blob y) = b_fields (e_base_blob x)"
    and "e_flags y = []"
    and "fst ` set (b_values (e_base_blob x)) = fst ` set (b_fields (e_base_blob x))"
    and "fst ` set (b_values (e_base_blob y)) = fst ` set (b_fields (e_base_blob y))"
    and "{''type'', ''uid'', ''flags'', ''tags''} \<inter> fst ` set (b_fields (e_base_blob x)) = {}"
  shows "fst (deserialize y (serialize x)) = Returned ()
    \<and> e_uid (snd (deserialize y (serialize x))) = e_uid x
    \<and> (\<forall>n. map_of (b_values (e_base_blob (snd (deserialize y (serialize x))))) n
             = map_of (b_values (e_base_blob x)) n)
    \<and> set (e_flags (snd (deserialize y (serialize x)))) = set (e_flags x)
    \<and> e_tags (snd (deserialize y (serialize x))) = e_tags x"
proof -
  have v: "\<forall>n. map_of (b_values (e_base_blob (snd (deserialize y (serialize x))))) n
             = map_of (b_values (e_base_blob x)) n"
    using blob_values_after[OF assms(1,3,4,5)]
    by (simp add: deserialize_serialize deserialize_blob_def)
  have f: "set (e_flags (snd (deserialize y (serialize x)))) = set (e_flags x)"
    by (simp add: deserialize_serialize deserialize_blob_def set_flags_add assms(2))
  show ?thesis using v f by (simp add: deserialize_serialize deserialize_blob_def)
qed

lemma ex_new_entity_eq:
  "new_entity ex_env ''Item'' False True = ex_sword\<lparr> e_uid := VNone \<rparr>"
  by (simp add: ex_sword_def new_entity_def)

theorem C2_roundtrip_example:
  "fst (deserialize (new_entity ex_env ''Item'' False True)
          (serialize (ex_sword\<lparr> e_flags := [VStr ''magic''], e_tags := [(''owner'', VStr ''bob'')] \<rparr>)))
     = Returned ()
   \<and> e_uid (snd (deserialize (new_entity ex_env ''Item'' False True)
          (serialize (ex_sword\<lparr> e_flags := [VStr ''magic''], e_tags := [(''owner'', VStr ''bob'')] \<rparr>))))
     = VStr ''E-1''
   \<and> set (e_flags (snd (deserialize (new_entity ex_env ''Item'' False True)
          (serialize (ex_sword\<lparr> e_flags := [VStr ''magic''], e_tags := [(''owner'', VStr ''bob'')] \<rparr>)))))
     = {VStr ''magic''}
   \<and> e_tags (snd (deserialize (new_entity ex_env ''Item'' False True)
          (serialize (ex_sword\<lparr> e_flags := [VStr ''magic''], e_tags := [(''owner'', VStr ''bob'')] \<rparr>))))
     = [(''owner'', VStr ''bob'')]"
proof -
  let ?x = "ex_sword\<lparr> e_flags := [VStr ''magic''], e_tags := [(''owner'', VStr ''bob'')] \<rparr>"
  let ?y = "new_entity ex_env ''Item'' False True"
  have 1: "b_fields (e_base_blob ?y) = b_fields (e_base_blob ?x)"
    by (simp add: ex_new_entity_eq)
  have 2: "e_flags ?y = []" by (simp add: new_entity_def)
  have 3: "fst ` set (b_values (e_base_blob ?x)) = fst ` set (b_fields (e_base_blob ?x))"
    by (simp add: ex_sword_eq)
  have 4: "fst ` set (b_values (e_base_blob ?y)) = fst ` set (b_fields (e_base_blob ?y))"
    by (simp add: ex_new_entity_eq ex_sword_eq)
  have 5: "{''type'', ''uid'', ''flags'', ''tags''} \<inter> fst ` set (b_fields (e_base_blob ?x)) = {}"
    by (simp add: ex_sword_eq)
  from C2_deserialize_serialize_roundtrip [OF 1 2 3 4 5] show ?thesis
    by (simp add: ex_sword_fields)
qed

end
